theory Spec2Isabelle
  imports Main "HOL-Library.Word"
begin

unbundle bit_operations_syntax

section \<open>The file-system facade of libfsntfs (libfsntfs\_file\_system.c)\<close>

text \<open>
  The theory embeds the functions of \<^verbatim>\<open>libfsntfs/libfsntfs_file_system.c\<close>.
  Each C function becomes a HOL function that takes the objects the C function reaches
  through its pointer arguments and returns the C return value together with the
  objects as the call leaves them. A pointer that may be \<^verbatim>\<open>NULL\<close> is an
  \<open>option\<close>; the \<^verbatim>\<open>libcerror_error_t **error\<close> argument is the list of
  error frames pushed so far.

  The functions that libfsntfs\_file\_system.c calls in other translation units
  (libfsntfs\_mft.c, libfdata, libfcache, ...) are not part of the file. They are taken
  as parameters: the record \<open>callees\<close> holds one field per external function, and every
  theorem below is stated for an arbitrary such record unless it says otherwise.
\<close>

subsection \<open>Errors\<close>

datatype error_domain =
    ERROR_DOMAIN_ARGUMENTS
  | ERROR_DOMAIN_IO
  | ERROR_DOMAIN_MEMORY
  | ERROR_DOMAIN_RUNTIME

datatype error_code =
    ARGUMENT_ERROR_INVALID_VALUE
  | IO_ERROR_READ_FAILED
  | RUNTIME_ERROR_VALUE_MISSING
  | RUNTIME_ERROR_VALUE_ALREADY_SET
  | RUNTIME_ERROR_INITIALIZE_FAILED
  | RUNTIME_ERROR_FINALIZE_FAILED
  | RUNTIME_ERROR_GET_FAILED
  | RUNTIME_ERROR_SET_FAILED
  | RUNTIME_ERROR_VALUE_EXCEEDS_MAXIMUM
  | RUNTIME_ERROR_VALUE_OUT_OF_BOUNDS
  | RUNTIME_ERROR_GENERIC
  | OTHER_ERROR nat

text \<open>
  One frame per call of \<^verbatim>\<open>libcerror_error_set\<close>: domain, code and the message
  (without the leading function name). The error object is the list of frames, oldest
  first; the empty list is \<^verbatim>\<open>*error == NULL\<close>.
\<close>

type_synonym error_frame = "error_domain \<times> error_code \<times> string"
type_synonym libcerror_error = "error_frame list"

definition libcerror_error_set ::
  "libcerror_error \<Rightarrow> error_domain \<Rightarrow> error_code \<Rightarrow> string \<Rightarrow> libcerror_error" where
  "libcerror_error_set error domain code message = error @ [(domain, code, message)]"

text \<open>
  What an external function reports: \<open>Ok\<close> is the return value 1; \<open>Failed fr\<close> is any
  other return value, \<open>fr\<close> being the frames the function pushed before returning.
\<close>

datatype status = Ok | Failed libcerror_error

text \<open>
  The \<^verbatim>\<open>_initialize\<close> functions write an object pointer. On success the pointer
  is set to the new object (the library's tests assert this for every type, see
  tests/fsntfs\_test\_object\_identifier\_values.c); on failure the pointer is whatever
  the function left there.
\<close>

datatype 'a init_result = Init_ok 'a | Init_failed libcerror_error "'a option"

subsection \<open>Data\<close>

text \<open>
  The structure declarations live in headers outside this file; the records list the
  members that libfsntfs\_file\_system.c reads or writes. \<open>opaque\<close> stands for the rest
  of an object (vectors, caches, parsed values) that only external functions look at.
  Sizes and offsets have the widths of an LP64 platform: \<^verbatim>\<open>size_t\<close>,
  \<^verbatim>\<open>size64_t\<close> and \<^verbatim>\<open>uint64_t\<close> are 64-bit words read unsigned,
  \<^verbatim>\<open>off64_t\<close> is a 64-bit word read signed, \<^verbatim>\<open>int\<close> has 32 bits.
  \<open>mft_entry_size\<close> is a 32-bit member (line 291 casts it to
  \<^verbatim>\<open>size64_t\<close>); \<open>cluster_block_size\<close> is a \<^verbatim>\<open>size_t\<close>, so that
  the addition of line 663 is the 64-bit addition with wrap-around.
\<close>

type_synonym opaque = nat

record libfsntfs_io_handle =
  mft_entry_size :: "32 word"
  cluster_block_size :: "64 word"

record libfsntfs_mft =
  number_of_mft_entries :: "64 word"
  mft_internal :: opaque

type_synonym libfsntfs_mft_attribute = opaque

record libfsntfs_mft_entry =
  data_attribute :: "libfsntfs_mft_attribute option"
  file_name_attribute_index :: int
  mft_entry_internal :: opaque

record libfsntfs_file_name_values =
  name :: "8 word list option"
  name_size :: "64 word"

record libfsntfs_cluster_block =
  data :: "8 word list option"
  data_size :: "64 word"

type_synonym libfdata_vector = opaque
type_synonym libfcache_cache = opaque
type_synonym libfsntfs_security_descriptor_index = opaque
type_synonym libfsntfs_security_descriptor_values = opaque

record libfsntfs_file_system =
  mft :: "libfsntfs_mft option"
  security_descriptor_index :: "libfsntfs_security_descriptor_index option"

subsection \<open>Constants of the headers\<close>

definition INT64_MAX :: "64 word" where
  "INT64_MAX = 0x7FFFFFFFFFFFFFFF"

definition SSIZE_MAX :: "64 word" where
  "SSIZE_MAX = 0x7FFFFFFFFFFFFFFF"

definition INT_MAX :: "64 word" where
  "INT_MAX = 0x7FFFFFFF"

text \<open>
  Modelled from the spec: libfsntfs\_definitions.h is not in the file. The spec gives
  \<^verbatim>\<open>MFT_ONLY\<close> as bit 0 of the flags, \<^verbatim>\<open>$Bitmap\<close> as MFT entry 6 and
  \<^verbatim>\<open>$Secure\<close> as MFT entry 9.
\<close>

definition LIBFSNTFS_FILE_ENTRY_FLAGS_MFT_ONLY :: "8 word" where
  "LIBFSNTFS_FILE_ENTRY_FLAGS_MFT_ONLY = 0x01"

definition LIBFSNTFS_MFT_ENTRY_INDEX_BITMAP :: "64 word" where
  "LIBFSNTFS_MFT_ENTRY_INDEX_BITMAP = 6"

definition LIBFSNTFS_MFT_ENTRY_INDEX_SECURE :: "64 word" where
  "LIBFSNTFS_MFT_ENTRY_INDEX_SECURE = 9"

subsection \<open>The external functions\<close>

text \<open>
  \<open>'io\<close> is the state of the file I/O handle (\<^verbatim>\<open>libbfio_handle_t\<close>): every
  external function that receives \<^verbatim>\<open>file_io_handle\<close> takes the state and returns
  the state it leaves. An external function that receives an object by pointer returns
  the object as it leaves it, also when it fails. \<open>libuna_compare_equal\<close> is the
  value of the macro \<^verbatim>\<open>LIBUNA_COMPARE_EQUAL\<close> of libuna's headers, and
  \<open>have_multi_thread_support\<close> says whether
  \<^verbatim>\<open>HAVE_LIBFSNTFS_MULTI_THREAD_SUPPORT\<close> is defined.
  \<^verbatim>\<open>libfsntfs_security_descriptor_index_free\<close> receives the address of the
  facade's index pointer: \<open>security_descriptor_index_free\<close> returns, with the status,
  the pointer as the function leaves it.
\<close>

record 'io callees =
  have_multi_thread_support :: bool
  read_write_lock_free :: "libfsntfs_file_system \<Rightarrow> status"
  security_descriptor_index_free ::
    "libfsntfs_security_descriptor_index
       \<Rightarrow> status \<times> libfsntfs_security_descriptor_index option"
  mft_free :: "libfsntfs_mft \<Rightarrow> status"
  mft_initialize ::
    "libfsntfs_io_handle \<Rightarrow> 64 word \<Rightarrow> 64 word \<Rightarrow> 64 word \<Rightarrow> 8 word
       \<Rightarrow> libfsntfs_mft init_result"
  mft_entry_initialize :: "libfsntfs_mft_entry init_result"
  mft_read_mft_entry ::
    "libfsntfs_mft \<Rightarrow> libfsntfs_io_handle \<Rightarrow> 'io \<Rightarrow> 64 word \<Rightarrow> 32 word
       \<Rightarrow> libfsntfs_mft_entry \<Rightarrow> 8 word
       \<Rightarrow> status \<times> libfsntfs_mft \<times> libfsntfs_mft_entry \<times> 'io"
  mft_set_data_runs ::
    "libfsntfs_mft \<Rightarrow> libfsntfs_mft_entry \<Rightarrow> status \<times> libfsntfs_mft"
  mft_entry_free :: "libfsntfs_mft_entry \<Rightarrow> status"
  mft_get_number_of_entries :: "libfsntfs_mft option \<Rightarrow> status \<times> 64 word"
  mft_get_mft_entry_by_index ::
    "libfsntfs_mft option \<Rightarrow> 'io \<Rightarrow> 64 word
       \<Rightarrow> status \<times> libfsntfs_mft_entry option \<times> opaque \<times> 'io"
  mft_get_mft_entry_by_index_no_cache ::
    "libfsntfs_mft option \<Rightarrow> 'io \<Rightarrow> 64 word
       \<Rightarrow> status \<times> libfsntfs_mft_entry option \<times> opaque \<times> 'io"
  cluster_block_vector_initialize ::
    "libfsntfs_io_handle \<Rightarrow> libfsntfs_mft_attribute \<Rightarrow> libfdata_vector init_result"
  cache_initialize :: "int \<Rightarrow> libfcache_cache init_result"
  vector_get_number_of_elements :: "libfdata_vector \<Rightarrow> status \<times> 32 word"
  vector_get_element_value_by_index ::
    "libfdata_vector \<Rightarrow> 'io \<Rightarrow> libfcache_cache \<Rightarrow> nat
       \<Rightarrow> status \<times> libfsntfs_cluster_block option \<times> libfcache_cache \<times> 'io"
  vector_free :: "libfdata_vector \<Rightarrow> status"
  cache_free :: "libfcache_cache \<Rightarrow> status"
  mft_entry_get_attribute_by_index ::
    "libfsntfs_mft_entry \<Rightarrow> int \<Rightarrow> status \<times> libfsntfs_mft_attribute option"
  file_name_values_initialize :: "libfsntfs_file_name_values init_result"
  file_name_values_read_from_mft_attribute ::
    "libfsntfs_file_name_values \<Rightarrow> libfsntfs_mft_attribute option
       \<Rightarrow> status \<times> libfsntfs_file_name_values"
  name_compare_with_utf8_string ::
    "8 word list option \<Rightarrow> 64 word \<Rightarrow> string \<Rightarrow> nat \<Rightarrow> 8 word
       \<Rightarrow> int \<times> libcerror_error"
  libuna_compare_equal :: int
  mft_entry_get_alternate_data_attribute_by_utf8_name ::
    "libfsntfs_mft_entry \<Rightarrow> string \<Rightarrow> nat \<Rightarrow> status \<times> libfsntfs_mft_attribute option"
  security_descriptor_index_initialize ::
    "libfsntfs_io_handle option \<Rightarrow> 'io \<Rightarrow> libfsntfs_mft_attribute option
       \<Rightarrow> libfsntfs_security_descriptor_index init_result \<times> 'io"
  security_descriptor_index_read_sii_index ::
    "libfsntfs_security_descriptor_index \<Rightarrow> libfsntfs_io_handle option \<Rightarrow> 'io
       \<Rightarrow> libfsntfs_mft_entry
       \<Rightarrow> status \<times> libfsntfs_security_descriptor_index \<times> 'io"
  file_name_values_free :: "libfsntfs_file_name_values \<Rightarrow> status"
  security_descriptor_index_get_entry_by_identifier ::
    "libfsntfs_security_descriptor_index \<Rightarrow> 'io \<Rightarrow> 32 word
       \<Rightarrow> int \<times> libcerror_error \<times> libfsntfs_security_descriptor_index
          \<times> libfsntfs_security_descriptor_values option \<times> 'io"

subsection \<open>libfsntfs\_file\_system\_free (lines 137-210)\<close>

text \<open>
  The argument is \<^verbatim>\<open>libfsntfs_file_system_t **\<close>: \<open>None\<close> is a
  \<^verbatim>\<open>NULL\<close> argument, \<open>Some None\<close> a pointer to a \<^verbatim>\<open>NULL\<close> facade.
  \<open>free_member\<close> is one of the three blocks "free the member, on failure push a frame
  and set result to -1".
\<close>

definition free_member ::
  "status \<Rightarrow> string \<Rightarrow> int \<times> libcerror_error \<Rightarrow> int \<times> libcerror_error" where
  "free_member st message acc =
     (case st of
        Ok \<Rightarrow> acc
      | Failed fr \<Rightarrow>
          (-1, libcerror_error_set (snd acc @ fr)
                 ERROR_DOMAIN_RUNTIME RUNTIME_ERROR_FINALIZE_FAILED message))"

definition libfsntfs_file_system_free ::
  "'io callees \<Rightarrow> libfsntfs_file_system option option \<Rightarrow> libcerror_error
     \<Rightarrow> int \<times> libfsntfs_file_system option option \<times> libcerror_error" where
  "libfsntfs_file_system_free env file_system error =
     (case file_system of
        None \<Rightarrow>
          (-1, None,
           libcerror_error_set error ERROR_DOMAIN_ARGUMENTS ARGUMENT_ERROR_INVALID_VALUE
             ''invalid file system.'')
      | Some None \<Rightarrow> (1, Some None, error)
      | Some (Some fs) \<Rightarrow>
          (let r0 = (1, error);
               r1 = (if have_multi_thread_support env
                     then free_member (read_write_lock_free env fs)
                            ''unable to free read/write lock.'' r0
                     else r0);
               r2 = (case security_descriptor_index fs of
                       None \<Rightarrow> r1
                     | Some sdi \<Rightarrow>
                         free_member (fst (security_descriptor_index_free env sdi))
                           ''unable to free security descriptor index.'' r1);
               r3 = (case mft fs of
                       None \<Rightarrow> r2
                     | Some m \<Rightarrow>
                         free_member (mft_free env m) ''unable to free MFT.'' r2)
           in (fst r3, Some None, snd r3)))"

subsection \<open>libfsntfs\_file\_system\_read\_mft (lines 215-404)\<close>

text \<open>
  The result is \<open>None\<close> where the C program divides by zero (line 366 with an MFT
  entry size of 0); otherwise it is the return value, the facade, the file I/O state and
  the error as the call leaves them.

  \<open>read_mft_bootstrap\<close> is the part of the function after the argument checks, from
  the call of \<^verbatim>\<open>libfsntfs_mft_initialize\<close> on (lines 283-404). The label
  \<^verbatim>\<open>on_error\<close> frees the local MFT entry only, so every failing branch returns
  the facade as it stands at that point.
\<close>

type_synonym 'io file_system_result =
  "(int \<times> libfsntfs_file_system option \<times> 'io \<times> libcerror_error) option"

definition read_mft_bootstrap ::
  "'io callees \<Rightarrow> libfsntfs_file_system \<Rightarrow> libfsntfs_io_handle \<Rightarrow> 'io
     \<Rightarrow> 64 word \<Rightarrow> 64 word \<Rightarrow> 8 word \<Rightarrow> libcerror_error \<Rightarrow> 'io file_system_result" where
  "read_mft_bootstrap env fs io_handle file_io_handle mft_offset mft_size flags error =
     (case mft_initialize env io_handle mft_offset mft_size
             (ucast (mft_entry_size io_handle)) flags of
        Init_failed fr p \<Rightarrow>
          Some (-1, Some (fs\<lparr>mft := p\<rparr>), file_io_handle,
                libcerror_error_set (error @ fr)
                  ERROR_DOMAIN_RUNTIME RUNTIME_ERROR_INITIALIZE_FAILED
                  ''unable to create MFT.'')
      | Init_ok m1 \<Rightarrow>
          (case mft_entry_initialize env of
             Init_failed fr p \<Rightarrow>
               Some (-1, Some (fs\<lparr>mft := Some m1\<rparr>), file_io_handle,
                     libcerror_error_set (error @ fr)
                       ERROR_DOMAIN_RUNTIME RUNTIME_ERROR_INITIALIZE_FAILED
                       ''unable to create MFT entry.'')
           | Init_ok e1 \<Rightarrow>
               (case mft_read_mft_entry env m1 io_handle file_io_handle mft_offset 0 e1 flags of
                  (Failed fr, m2, e2, io2) \<Rightarrow>
                    Some (-1, Some (fs\<lparr>mft := Some m2\<rparr>), io2,
                          libcerror_error_set (error @ fr)
                            ERROR_DOMAIN_IO IO_ERROR_READ_FAILED
                            ''unable to read MFT entry: 0.'')
                | (Ok, m2, e2, io2) \<Rightarrow>
                    (if flags AND LIBFSNTFS_FILE_ENTRY_FLAGS_MFT_ONLY = 0
                     then
                       (case mft_set_data_runs env m2 e2 of
                          (Failed fr, m3) \<Rightarrow>
                            Some (-1, Some (fs\<lparr>mft := Some m3\<rparr>), io2,
                                  libcerror_error_set (error @ fr)
                                    ERROR_DOMAIN_RUNTIME RUNTIME_ERROR_SET_FAILED
                                    ''unable to set MFT data runs.'')
                        | (Ok, m3) \<Rightarrow>
                            (case mft_entry_free env e2 of
                               Failed fr \<Rightarrow>
                                 Some (-1, Some (fs\<lparr>mft := Some m3\<rparr>), io2,
                                       libcerror_error_set (error @ fr)
                                         ERROR_DOMAIN_RUNTIME RUNTIME_ERROR_FINALIZE_FAILED
                                         ''unable to free MFT entry.'')
                             | Ok \<Rightarrow> Some (1, Some (fs\<lparr>mft := Some m3\<rparr>), io2, error)))
                     else
                       (if data_attribute e2 = None
                        then
                          Some (-1, Some (fs\<lparr>mft := Some m2\<rparr>), io2,
                                libcerror_error_set error
                                  ERROR_DOMAIN_RUNTIME RUNTIME_ERROR_VALUE_MISSING
                                  ''invalid MFT entry: 0 - missing data attribute.'')
                        else if mft_entry_size io_handle = 0
                        then None
                        else
                          (let number_of_mft_entries' =
                                 mft_size div ucast (mft_entry_size io_handle)
                           in if number_of_mft_entries' > INT_MAX
                              then
                                Some (-1, Some (fs\<lparr>mft := Some m2\<rparr>), io2,
                                      libcerror_error_set error
                                        ERROR_DOMAIN_RUNTIME RUNTIME_ERROR_VALUE_OUT_OF_BOUNDS
                                        ''invalid number of MFT entries value out of bounds.'')
                              else
                                (let m3 = m2\<lparr>number_of_mft_entries := number_of_mft_entries'\<rparr>
                                 in case mft_entry_free env e2 of
                                      Failed fr \<Rightarrow>
                                        Some (-1, Some (fs\<lparr>mft := Some m3\<rparr>), io2,
                                              libcerror_error_set (error @ fr)
                                                ERROR_DOMAIN_RUNTIME
                                                RUNTIME_ERROR_FINALIZE_FAILED
                                                ''unable to free MFT entry.'')
                                    | Ok \<Rightarrow>
                                        Some (1, Some (fs\<lparr>mft := Some m3\<rparr>), io2,
                                              error))))))))"

definition libfsntfs_file_system_read_mft ::
  "'io callees \<Rightarrow> libfsntfs_file_system option \<Rightarrow> libfsntfs_io_handle option \<Rightarrow> 'io
     \<Rightarrow> 64 word \<Rightarrow> 64 word \<Rightarrow> 8 word \<Rightarrow> libcerror_error \<Rightarrow> 'io file_system_result" where
  "libfsntfs_file_system_read_mft env file_system io_handle file_io_handle
       mft_offset mft_size flags error =
     (case file_system of
        None \<Rightarrow>
          Some (-1, None, file_io_handle,
                libcerror_error_set error ERROR_DOMAIN_ARGUMENTS ARGUMENT_ERROR_INVALID_VALUE
                  ''invalid file system.'')
      | Some fs \<Rightarrow>
          (if mft fs \<noteq> None
           then
             Some (-1, Some fs, file_io_handle,
                   libcerror_error_set error
                     ERROR_DOMAIN_RUNTIME RUNTIME_ERROR_VALUE_ALREADY_SET
                     ''invalid file system - MFT value already set.'')
           else
             (case io_handle of
                None \<Rightarrow>
                  Some (-1, Some fs, file_io_handle,
                        libcerror_error_set error
                          ERROR_DOMAIN_ARGUMENTS ARGUMENT_ERROR_INVALID_VALUE
                          ''invalid IO handle.'')
              | Some ioh \<Rightarrow>
                  (if mft_offset <s 0
                   then
                     Some (-1, Some fs, file_io_handle,
                           libcerror_error_set error
                             ERROR_DOMAIN_RUNTIME RUNTIME_ERROR_VALUE_OUT_OF_BOUNDS
                             ''invalid MFT offset value out of bounds.'')
                   else if mft_size > INT64_MAX
                   then
                     Some (-1, Some fs, file_io_handle,
                           libcerror_error_set error
                             ERROR_DOMAIN_RUNTIME RUNTIME_ERROR_VALUE_EXCEEDS_MAXIMUM
                             ''invalid MFT size value exceeds maximum.'')
                   else
                     read_mft_bootstrap env fs ioh file_io_handle
                       mft_offset mft_size flags error))))"

subsection \<open>libfsntfs\_file\_system\_get\_number\_of\_mft\_entries (lines 970-1003)\<close>

definition libfsntfs_file_system_get_number_of_mft_entries ::
  "'io callees \<Rightarrow> libfsntfs_file_system option \<Rightarrow> libcerror_error
     \<Rightarrow> int \<times> 64 word option \<times> libcerror_error" where
  "libfsntfs_file_system_get_number_of_mft_entries env file_system error =
     (case file_system of
        None \<Rightarrow>
          (-1, None,
           libcerror_error_set error ERROR_DOMAIN_ARGUMENTS ARGUMENT_ERROR_INVALID_VALUE
             ''invalid file system.'')
      | Some fs \<Rightarrow>
          (case mft_get_number_of_entries env (mft fs) of
             (Failed fr, n) \<Rightarrow>
               (-1, None,
                libcerror_error_set (error @ fr) ERROR_DOMAIN_RUNTIME RUNTIME_ERROR_GET_FAILED
                  ''unable to retrieve number of MFT entries.'')
           | (Ok, n) \<Rightarrow> (1, Some n, error)))"

subsection \<open>libfsntfs\_file\_system\_read\_bitmap (lines 409-751)\<close>

text \<open>
  The locals of the scan. \<open>offset_ranges\<close> is not a variable of the C function: it
  collects, in order, the pairs \<open>(start_offset, bitmap_offset)\<close> at the two places
  (lines 622-654 and 669-700) where the function prints a range in debug builds and
  where the calls of \<^verbatim>\<open>libfsntfs_offset_list_append_offset\<close> are commented out.
\<close>

record scan_state =
  start_offset :: "64 word"
  bitmap_offset :: "64 word"
  value_32bit :: "32 word"
  offset_ranges :: "(64 word \<times> 64 word) list"

text \<open>The macro of byte\_stream.h: four bytes at \<open>off\<close>, least significant first.\<close>

definition byte_stream_copy_to_uint32_little_endian :: "8 word list \<Rightarrow> nat \<Rightarrow> 32 word" where
  "byte_stream_copy_to_uint32_little_endian d off =
     push_bit 24 (ucast (d ! (off + 3))) OR push_bit 16 (ucast (d ! (off + 2)))
       OR push_bit 8 (ucast (d ! (off + 1))) OR ucast (d ! off)"

text \<open>
  The body of the loop over \<^verbatim>\<open>bit_index\<close> (lines 620-665). \<open>start_offset\<close> and
  \<open>bitmap_offset\<close> are \<^verbatim>\<open>off64_t\<close>: the comparisons with 0 are signed.
\<close>

definition scan_bit :: "64 word \<Rightarrow> scan_state \<Rightarrow> scan_state" where
  "scan_bit cbs s =
     (let s1 =
            (if value_32bit s AND 0x00000001 = 0
             then
               (if 0 \<le>s start_offset s
                then s\<lparr>start_offset := - 1,
                       offset_ranges := offset_ranges s @ [(start_offset s, bitmap_offset s)]\<rparr>
                else s)
             else
               (if start_offset s <s 0
                then s\<lparr>start_offset := bitmap_offset s\<rparr>
                else s))
      in s1\<lparr>bitmap_offset := bitmap_offset s1 + cbs,
             value_32bit := drop_bit 1 (value_32bit s1)\<rparr>)"

function scan_value_32bit :: "nat \<Rightarrow> 64 word \<Rightarrow> scan_state \<Rightarrow> scan_state" where
  "scan_value_32bit bit_index cbs s =
     (if bit_index < 32
      then scan_value_32bit (bit_index + 1) cbs (scan_bit cbs s)
      else s)"
  by pat_completeness auto
termination
  by (relation "measure (\<lambda>(bit_index, cbs, s). 32 - bit_index)") auto

declare scan_value_32bit.simps [simp del]

text \<open>
  The loop over \<^verbatim>\<open>cluster_block_data_offset\<close> (lines 610-668). \<open>sz\<close> is
  \<^verbatim>\<open>cluster_block->data_size\<close>, which the check before the loop bounds by
  \<^verbatim>\<open>SSIZE_MAX\<close>, so the offset does not wrap around and is a natural number
  here. The result is \<open>None\<close> where the C program reads behind the end of the buffer
  \<open>d\<close>.
\<close>

function scan_cluster_block_data ::
  "64 word \<Rightarrow> 8 word list \<Rightarrow> nat \<Rightarrow> nat \<Rightarrow> scan_state \<Rightarrow> scan_state option" where
  "scan_cluster_block_data cbs d sz off s =
     (if off < sz
      then
        (if off + 3 < length d
         then
           scan_cluster_block_data cbs d sz (off + 4)
             (scan_value_32bit 0 cbs
                (s\<lparr>value_32bit := byte_stream_copy_to_uint32_little_endian d off\<rparr>))
         else None)
      else Some s)"
  by pat_completeness auto
termination
  by (relation "measure (\<lambda>(cbs, d, sz, off, s). sz - off)") auto

declare scan_cluster_block_data.simps [simp del]

text \<open>One cluster block, after its checks: lines 607-700.\<close>

definition scan_cluster_block ::
  "64 word \<Rightarrow> 8 word list \<Rightarrow> 64 word \<Rightarrow> scan_state \<Rightarrow> scan_state option" where
  "scan_cluster_block cbs d sz s =
     (case scan_cluster_block_data cbs d (unat sz) 0 (s\<lparr>start_offset := - 1\<rparr>) of
        None \<Rightarrow> None
      | Some s1 \<Rightarrow>
          Some (if 0 \<le>s start_offset s1
                then s1\<lparr>offset_ranges :=
                          offset_ranges s1 @ [(start_offset s1, bitmap_offset s1)]\<rparr>
                else s1))"

text \<open>
  The loop over the cluster blocks (lines 534-708). It ends with the error of the first
  block that fails a check and the scan state reached before that block, or with the
  scan state after the last block.
\<close>

datatype 'io blocks_result =
    Blocks_failed 'io libcerror_error scan_state
  | Blocks_done 'io libfcache_cache scan_state

function read_bitmap_cluster_blocks ::
  "'io callees \<Rightarrow> libfsntfs_io_handle \<Rightarrow> libfdata_vector \<Rightarrow> int \<Rightarrow> nat \<Rightarrow> 'io
     \<Rightarrow> libfcache_cache \<Rightarrow> scan_state \<Rightarrow> libcerror_error \<Rightarrow> 'io blocks_result option" where
  "read_bitmap_cluster_blocks env io_handle vec number_of_cluster_blocks cluster_block_index
       file_io_handle cache s error =
     (if int cluster_block_index < number_of_cluster_blocks
      then
        (case vector_get_element_value_by_index env vec file_io_handle cache
                cluster_block_index of
           (Failed fr, cb, cache1, io1) \<Rightarrow>
             Some (Blocks_failed io1
                     (libcerror_error_set (error @ fr)
                        ERROR_DOMAIN_RUNTIME RUNTIME_ERROR_GET_FAILED
                        ''unable to retrieve cluster block: %d from vector.'')
                     s)
         | (Ok, None, cache1, io1) \<Rightarrow>
             Some (Blocks_failed io1
                     (libcerror_error_set error
                        ERROR_DOMAIN_RUNTIME RUNTIME_ERROR_VALUE_MISSING
                        ''missing cluster block: %d.'')
                     s)
         | (Ok, Some cluster_block, cache1, io1) \<Rightarrow>
             (case data cluster_block of
                None \<Rightarrow>
                  Some (Blocks_failed io1
                          (libcerror_error_set error
                             ERROR_DOMAIN_RUNTIME RUNTIME_ERROR_VALUE_MISSING
                             ''invalid cluster block: %d - missing data.'')
                          s)
              | Some d \<Rightarrow>
                  (if data_size cluster_block mod 4 \<noteq> 0
                        \<or> data_size cluster_block > SSIZE_MAX
                   then
                     Some (Blocks_failed io1
                             (libcerror_error_set error
                                ERROR_DOMAIN_RUNTIME RUNTIME_ERROR_VALUE_OUT_OF_BOUNDS
                                ''cluster block: %d data size value out of bounds.'')
                             s)
                   else
                     (case scan_cluster_block (cluster_block_size io_handle) d
                             (data_size cluster_block) s of
                        None \<Rightarrow> None
                      | Some s1 \<Rightarrow>
                          read_bitmap_cluster_blocks env io_handle vec
                            number_of_cluster_blocks (cluster_block_index + 1)
                            io1 cache1 s1 error))))
      else Some (Blocks_done file_io_handle cache s))"
  by pat_completeness auto
termination
  by (relation "measure (\<lambda>(env, io_handle, vec, n, i, rest). nat (n - int i))") auto

declare read_bitmap_cluster_blocks.simps [simp del]

text \<open>
  The function itself. The MFT entry comes out of the MFT's cache, so the call of
  \<^verbatim>\<open>libfsntfs_mft_get_mft_entry_by_index\<close> may change the internals of the
  MFT object the facade points to; it cannot change the facade's pointer.
  The label \<^verbatim>\<open>on_error\<close> frees the local vector and cache only.

  \<open>libfsntfs_file_system_read_bitmap_verbose\<close> is the function with, as second
  component, the offset ranges it has printed with \<^verbatim>\<open>libcnotify_printf\<close> when it
  returns, in a build with \<^verbatim>\<open>HAVE_DEBUG_OUTPUT\<close> and
  \<^verbatim>\<open>libcnotify_verbose\<close> set (lines 625-634 and 672-681): the ranges leave the
  function on the notification stream only. \<open>libfsntfs_file_system_read_bitmap\<close> is
  what the caller has after the call: the return value, the facade, the file I/O handle
  and the error.
\<close>

definition set_mft_internal :: "opaque \<Rightarrow> libfsntfs_file_system \<Rightarrow> libfsntfs_file_system" where
  "set_mft_internal mi fs = fs\<lparr>mft := map_option (\<lambda>m. m\<lparr>mft_internal := mi\<rparr>) (mft fs)\<rparr>"

definition initial_scan_state :: scan_state where
  "initial_scan_state =
     \<lparr>start_offset = 0, bitmap_offset = 0, value_32bit = 0, offset_ranges = []\<rparr>"

definition libfsntfs_file_system_read_bitmap_verbose ::
  "'io callees \<Rightarrow> libfsntfs_file_system option \<Rightarrow> libfsntfs_io_handle option \<Rightarrow> 'io
     \<Rightarrow> libcerror_error
     \<Rightarrow> ((int \<times> libfsntfs_file_system option \<times> 'io \<times> libcerror_error)
          \<times> (64 word \<times> 64 word) list) option" where
  "libfsntfs_file_system_read_bitmap_verbose env file_system io_handle file_io_handle error =
     (case file_system of
        None \<Rightarrow>
          Some ((-1, None, file_io_handle,
                 libcerror_error_set error ERROR_DOMAIN_ARGUMENTS ARGUMENT_ERROR_INVALID_VALUE
                   ''invalid file system.''), [])
      | Some fs \<Rightarrow>
     (case io_handle of
        None \<Rightarrow>
          Some ((-1, Some fs, file_io_handle,
                 libcerror_error_set error ERROR_DOMAIN_ARGUMENTS ARGUMENT_ERROR_INVALID_VALUE
                   ''invalid IO handle.''), [])
      | Some ioh \<Rightarrow>
     (case mft_get_mft_entry_by_index env (mft fs) file_io_handle
             LIBFSNTFS_MFT_ENTRY_INDEX_BITMAP of
        (Failed fr, mft_entry, mi, io1) \<Rightarrow>
          Some ((-1, Some (set_mft_internal mi fs), io1,
                 libcerror_error_set (error @ fr) ERROR_DOMAIN_RUNTIME RUNTIME_ERROR_GET_FAILED
                   ''unable to retrieve MFT entry: %d.''), [])
      | (Ok, None, mi, io1) \<Rightarrow>
          Some ((-1, Some (set_mft_internal mi fs), io1,
                 libcerror_error_set error ERROR_DOMAIN_RUNTIME RUNTIME_ERROR_VALUE_MISSING
                   ''missing MFT entry: %d.''), [])
      | (Ok, Some mft_entry, mi, io1) \<Rightarrow>
     (case data_attribute mft_entry of
        None \<Rightarrow>
          Some ((-1, Some (set_mft_internal mi fs), io1,
                 libcerror_error_set error ERROR_DOMAIN_RUNTIME RUNTIME_ERROR_VALUE_MISSING
                   ''invalid MFT entry: %d - missing data attribute.''), [])
      | Some attribute \<Rightarrow>
     (case cluster_block_vector_initialize env ioh attribute of
        Init_failed fr p \<Rightarrow>
          Some ((-1, Some (set_mft_internal mi fs), io1,
                 libcerror_error_set (error @ fr)
                   ERROR_DOMAIN_RUNTIME RUNTIME_ERROR_INITIALIZE_FAILED
                   ''unable to create cluster block vector.''), [])
      | Init_ok vec \<Rightarrow>
     (case cache_initialize env 1 of
        Init_failed fr p \<Rightarrow>
          Some ((-1, Some (set_mft_internal mi fs), io1,
                 libcerror_error_set (error @ fr)
                   ERROR_DOMAIN_RUNTIME RUNTIME_ERROR_INITIALIZE_FAILED
                   ''unable to create cluster block cache.''), [])
      | Init_ok cache \<Rightarrow>
     (case vector_get_number_of_elements env vec of
        (Failed fr, n) \<Rightarrow>
          Some ((-1, Some (set_mft_internal mi fs), io1,
                 libcerror_error_set (error @ fr) ERROR_DOMAIN_RUNTIME RUNTIME_ERROR_GET_FAILED
                   ''unable to retrieve number of cluster blocks.''), [])
      | (Ok, number_of_cluster_blocks) \<Rightarrow>
     (case read_bitmap_cluster_blocks env ioh vec (sint number_of_cluster_blocks) 0
             io1 cache initial_scan_state error of
        None \<Rightarrow> None
      | Some (Blocks_failed io2 error2 s) \<Rightarrow>
          Some ((-1, Some (set_mft_internal mi fs), io2, error2), offset_ranges s)
      | Some (Blocks_done io2 cache2 s) \<Rightarrow>
     (case vector_free env vec of
        Failed fr \<Rightarrow>
          Some ((-1, Some (set_mft_internal mi fs), io2,
                 libcerror_error_set (error @ fr)
                   ERROR_DOMAIN_RUNTIME RUNTIME_ERROR_FINALIZE_FAILED
                   ''unable to free cluster block vector.''), offset_ranges s)
      | Ok \<Rightarrow>
     (case cache_free env cache2 of
        Failed fr \<Rightarrow>
          Some ((-1, Some (set_mft_internal mi fs), io2,
                 libcerror_error_set (error @ fr)
                   ERROR_DOMAIN_RUNTIME RUNTIME_ERROR_FINALIZE_FAILED
                   ''unable to free cluster block cache.''), offset_ranges s)
      | Ok \<Rightarrow>
          Some ((1, Some (set_mft_internal mi fs), io2, error), offset_ranges s)))))))))))"

definition libfsntfs_file_system_read_bitmap ::
  "'io callees \<Rightarrow> libfsntfs_file_system option \<Rightarrow> libfsntfs_io_handle option \<Rightarrow> 'io
     \<Rightarrow> libcerror_error \<Rightarrow> 'io file_system_result" where
  "libfsntfs_file_system_read_bitmap env file_system io_handle file_io_handle error =
     map_option fst
       (libfsntfs_file_system_read_bitmap_verbose env file_system io_handle file_io_handle
          error)"

subsection \<open>libfsntfs\_file\_system\_read\_security\_descriptors (lines 756-965)\<close>

text \<open>
  The label \<^verbatim>\<open>on_error\<close> (lines 951-964): a security descriptor index that is
  set is freed, the local file name values are freed, the function returns -1. The
  return value of \<^verbatim>\<open>libfsntfs_security_descriptor_index_free\<close> is ignored; the
  facade keeps the index pointer as that function leaves it.
\<close>

definition read_security_descriptors_on_error ::
  "'io callees \<Rightarrow> libfsntfs_file_system \<Rightarrow> 'io \<Rightarrow> libcerror_error
     \<Rightarrow> int \<times> libfsntfs_file_system option \<times> 'io \<times> libcerror_error" where
  "read_security_descriptors_on_error env fs file_io_handle error =
     (case security_descriptor_index fs of
        None \<Rightarrow> (-1, Some fs, file_io_handle, error)
      | Some sdi \<Rightarrow>
          (-1, Some (fs\<lparr>security_descriptor_index :=
                          snd (security_descriptor_index_free env sdi)\<rparr>),
           file_io_handle, error))"

text \<open>
  The branch taken when the name of MFT entry 9 compares equal to
  \<^verbatim>\<open>$Secure\<close> (lines 885-935); \<open>Inl\<close> is \<^verbatim>\<open>goto on_error\<close>.
\<close>

definition read_security_descriptors_index ::
  "'io callees \<Rightarrow> libfsntfs_file_system \<Rightarrow> libfsntfs_io_handle option \<Rightarrow> 'io
     \<Rightarrow> libfsntfs_mft_entry \<Rightarrow> libcerror_error
     \<Rightarrow> (libfsntfs_file_system \<times> 'io \<times> libcerror_error)
         + (libfsntfs_file_system \<times> 'io)" where
  "read_security_descriptors_index env fs io_handle file_io_handle mft_entry error =
     (case mft_entry_get_alternate_data_attribute_by_utf8_name env mft_entry ''$SDS'' 4 of
        (Failed fr, data_attribute') \<Rightarrow>
          Inl (fs, file_io_handle,
               libcerror_error_set (error @ fr) ERROR_DOMAIN_RUNTIME RUNTIME_ERROR_GET_FAILED
                 ''unable to retrieve $SDS data attribute.'')
      | (Ok, data_attribute') \<Rightarrow>
          (case security_descriptor_index_initialize env io_handle file_io_handle
                  data_attribute' of
             (Init_failed fr p, io1) \<Rightarrow>
               Inl (fs\<lparr>security_descriptor_index := p\<rparr>, io1,
                    libcerror_error_set (error @ fr)
                      ERROR_DOMAIN_RUNTIME RUNTIME_ERROR_INITIALIZE_FAILED
                      ''unable to create security descriptor index.'')
           | (Init_ok sdi, io1) \<Rightarrow>
               (case security_descriptor_index_read_sii_index env sdi io_handle io1 mft_entry of
                  (Failed fr, sdi2, io2) \<Rightarrow>
                    Inl (fs\<lparr>security_descriptor_index := Some sdi2\<rparr>, io2,
                         libcerror_error_set (error @ fr) ERROR_DOMAIN_IO IO_ERROR_READ_FAILED
                           ''unable to read security descriptor identifier ($SII) index.'')
                | (Ok, sdi2, io2) \<Rightarrow>
                    Inr (fs\<lparr>security_descriptor_index := Some sdi2\<rparr>, io2))))"

definition libfsntfs_file_system_read_security_descriptors ::
  "'io callees \<Rightarrow> libfsntfs_file_system option \<Rightarrow> libfsntfs_io_handle option \<Rightarrow> 'io
     \<Rightarrow> libcerror_error
     \<Rightarrow> int \<times> libfsntfs_file_system option \<times> 'io \<times> libcerror_error" where
  "libfsntfs_file_system_read_security_descriptors env file_system io_handle
       file_io_handle error =
     (case file_system of
        None \<Rightarrow>
          (-1, None, file_io_handle,
           libcerror_error_set error ERROR_DOMAIN_ARGUMENTS ARGUMENT_ERROR_INVALID_VALUE
             ''invalid file system.'')
      | Some fs0 \<Rightarrow>
     (if security_descriptor_index fs0 \<noteq> None
      then
        (-1, Some fs0, file_io_handle,
         libcerror_error_set error ERROR_DOMAIN_RUNTIME RUNTIME_ERROR_VALUE_ALREADY_SET
           ''invalid file system - security descriptor index value already set.'')
      else
     (case mft_get_mft_entry_by_index env (mft fs0) file_io_handle
             LIBFSNTFS_MFT_ENTRY_INDEX_SECURE of
        (Failed fr, mft_entry, mi, io1) \<Rightarrow>
          read_security_descriptors_on_error env (set_mft_internal mi fs0) io1
            (libcerror_error_set (error @ fr) ERROR_DOMAIN_RUNTIME RUNTIME_ERROR_GET_FAILED
               ''unable to retrieve MFT entry: %d.'')
      | (Ok, None, mi, io1) \<Rightarrow>
          read_security_descriptors_on_error env (set_mft_internal mi fs0) io1
            (libcerror_error_set error ERROR_DOMAIN_RUNTIME RUNTIME_ERROR_VALUE_MISSING
               ''missing MFT entry: %d.'')
      | (Ok, Some mft_entry, mi, io1) \<Rightarrow>
     (let fs = set_mft_internal mi fs0 in
     (case mft_entry_get_attribute_by_index env mft_entry
             (file_name_attribute_index mft_entry) of
        (Failed fr, mft_attribute) \<Rightarrow>
          read_security_descriptors_on_error env fs io1
            (libcerror_error_set (error @ fr) ERROR_DOMAIN_RUNTIME RUNTIME_ERROR_GET_FAILED
               ''unable to retrieve attribute: %d from MFT entry: %d.'')
      | (Ok, mft_attribute) \<Rightarrow>
     (case file_name_values_initialize env of
        Init_failed fr p \<Rightarrow>
          read_security_descriptors_on_error env fs io1
            (libcerror_error_set (error @ fr)
               ERROR_DOMAIN_RUNTIME RUNTIME_ERROR_INITIALIZE_FAILED
               ''unable to create file name values.'')
      | Init_ok file_name_values0 \<Rightarrow>
     (case file_name_values_read_from_mft_attribute env file_name_values0 mft_attribute of
        (Failed fr, file_name_values) \<Rightarrow>
          read_security_descriptors_on_error env fs io1
            (libcerror_error_set (error @ fr) ERROR_DOMAIN_IO IO_ERROR_READ_FAILED
               ''unable to read file name values from attribute: %d from MFT entry: %d.'')
      | (Ok, file_name_values) \<Rightarrow>
     (case name_compare_with_utf8_string env (name file_name_values)
             (name_size file_name_values) ''$Secure'' 7 1 of
        (result, fr) \<Rightarrow>
     (if result = -1
      then
        read_security_descriptors_on_error env fs io1
          (libcerror_error_set (error @ fr) ERROR_DOMAIN_RUNTIME RUNTIME_ERROR_GENERIC
             ''unable to compare UTF-8 string with data attribute name.'')
      else
     (case (if result = libuna_compare_equal env
            then read_security_descriptors_index env fs io_handle io1 mft_entry (error @ fr)
            else Inr (fs, io1)) of
        Inl (fs2, io2, error2) \<Rightarrow> read_security_descriptors_on_error env fs2 io2 error2
      | Inr (fs2, io2) \<Rightarrow>
     (case file_name_values_free env file_name_values of
        Failed fr2 \<Rightarrow>
          read_security_descriptors_on_error env fs2 io2
            (libcerror_error_set (error @ fr @ fr2)
               ERROR_DOMAIN_RUNTIME RUNTIME_ERROR_FINALIZE_FAILED
               ''unable to free file name values.'')
      | Ok \<Rightarrow> (1, Some fs2, io2, error @ fr))))))))))))"

subsection \<open>The getters (lines 1008-1140)\<close>

definition libfsntfs_file_system_get_mft_entry_by_index ::
  "'io callees \<Rightarrow> libfsntfs_file_system option \<Rightarrow> 'io \<Rightarrow> 64 word \<Rightarrow> libcerror_error
     \<Rightarrow> int \<times> libfsntfs_file_system option \<times> libfsntfs_mft_entry option \<times> 'io
        \<times> libcerror_error" where
  "libfsntfs_file_system_get_mft_entry_by_index env file_system file_io_handle
       mft_entry_index error =
     (case file_system of
        None \<Rightarrow>
          (-1, None, None, file_io_handle,
           libcerror_error_set error ERROR_DOMAIN_ARGUMENTS ARGUMENT_ERROR_INVALID_VALUE
             ''invalid file system.'')
      | Some fs \<Rightarrow>
          (case mft_get_mft_entry_by_index env (mft fs) file_io_handle mft_entry_index of
             (Failed fr, mft_entry, mi, io1) \<Rightarrow>
               (-1, Some (set_mft_internal mi fs), mft_entry, io1,
                libcerror_error_set (error @ fr) ERROR_DOMAIN_RUNTIME RUNTIME_ERROR_GET_FAILED
                  ''unable to retrieve MFT entry: %PRIi64.'')
           | (Ok, mft_entry, mi, io1) \<Rightarrow>
               (1, Some (set_mft_internal mi fs), mft_entry, io1, error)))"

definition libfsntfs_file_system_get_mft_entry_by_index_no_cache ::
  "'io callees \<Rightarrow> libfsntfs_file_system option \<Rightarrow> 'io \<Rightarrow> 64 word \<Rightarrow> libcerror_error
     \<Rightarrow> int \<times> libfsntfs_file_system option \<times> libfsntfs_mft_entry option \<times> 'io
        \<times> libcerror_error" where
  "libfsntfs_file_system_get_mft_entry_by_index_no_cache env file_system file_io_handle
       mft_entry_index error =
     (case file_system of
        None \<Rightarrow>
          (-1, None, None, file_io_handle,
           libcerror_error_set error ERROR_DOMAIN_ARGUMENTS ARGUMENT_ERROR_INVALID_VALUE
             ''invalid file system.'')
      | Some fs \<Rightarrow>
          (case mft_get_mft_entry_by_index_no_cache env (mft fs) file_io_handle
                  mft_entry_index of
             (Failed fr, mft_entry, mi, io1) \<Rightarrow>
               (-1, Some (set_mft_internal mi fs), mft_entry, io1,
                libcerror_error_set (error @ fr) ERROR_DOMAIN_RUNTIME RUNTIME_ERROR_GET_FAILED
                  ''unable to retrieve MFT entry: %PRIi64.'')
           | (Ok, mft_entry, mi, io1) \<Rightarrow>
               (1, Some (set_mft_internal mi fs), mft_entry, io1, error)))"

text \<open>
  \<^verbatim>\<open>libfsntfs_file_system_get_security_descriptor_values_by_identifier\<close>: the
  third component of the result is what the call stores through
  \<^verbatim>\<open>security_descriptor_values\<close>, \<open>None\<close> where it stores nothing.
\<close>

definition libfsntfs_file_system_get_security_descriptor_values_by_identifier ::
  "'io callees \<Rightarrow> libfsntfs_file_system option \<Rightarrow> 'io \<Rightarrow> 32 word \<Rightarrow> libcerror_error
     \<Rightarrow> int \<times> libfsntfs_file_system option
        \<times> libfsntfs_security_descriptor_values option \<times> 'io \<times> libcerror_error" where
  "libfsntfs_file_system_get_security_descriptor_values_by_identifier env file_system
       file_io_handle security_descriptor_identifier error =
     (case file_system of
        None \<Rightarrow>
          (-1, None, None, file_io_handle,
           libcerror_error_set error ERROR_DOMAIN_ARGUMENTS ARGUMENT_ERROR_INVALID_VALUE
             ''invalid file system.'')
      | Some fs \<Rightarrow>
          (case security_descriptor_index fs of
             None \<Rightarrow> (0, Some fs, None, file_io_handle, error)
           | Some sdi \<Rightarrow>
               (case security_descriptor_index_get_entry_by_identifier env sdi file_io_handle
                       security_descriptor_identifier of
                  (result, fr, sdi1, values, io1) \<Rightarrow>
                    (if result = -1
                     then
                       (-1, Some (fs\<lparr>security_descriptor_index := Some sdi1\<rparr>), values, io1,
                        libcerror_error_set (error @ fr)
                          ERROR_DOMAIN_RUNTIME RUNTIME_ERROR_GET_FAILED
                          ''unable to retrieve security descriptor from index for identifier: %PRIu32.'')
                     else
                       (result, Some (fs\<lparr>security_descriptor_index := Some sdi1\<rparr>), values,
                        io1, error @ fr)))))"

subsection \<open>The bitmap in the words of the specification\<close>

text \<open>
  The specification (4.7): the bitmap is a sequence of little-endian 32-bit words; bit
  \<open>k\<close> of word \<open>w\<close> set means that cluster \<open>32 * w + k\<close> is allocated; the
  reader coalesces contiguous set ranges. \<open>little_endian_word d w\<close> is the number
  that the four bytes of word \<open>w\<close> of the bitmap bytes \<open>d\<close> denote, least
  significant byte first, and \<open>bitmap_bit d j\<close> says that cluster \<open>j\<close> is
  allocated.
\<close>

definition little_endian_word :: "8 word list \<Rightarrow> nat \<Rightarrow> nat" where
  "little_endian_word d w =
     unat (d ! (4 * w)) + 2 ^ 8 * unat (d ! (4 * w + 1)) + 2 ^ 16 * unat (d ! (4 * w + 2))
       + 2 ^ 24 * unat (d ! (4 * w + 3))"

definition bitmap_bit :: "8 word list \<Rightarrow> nat \<Rightarrow> bool" where
  "bitmap_bit d j = bit (little_endian_word d (j div 32)) (j mod 32)"


text \<open>
  The runs computed from left to right: \<open>open_start\<close> is the first cluster of the run
  that is open after \<open>n\<close> clusters, \<open>closed_runs\<close> the runs closed so far, and
  \<open>coalesced_runs\<close> closes the open run at the end.
\<close>

primrec open_start :: "(nat \<Rightarrow> bool) \<Rightarrow> nat \<Rightarrow> nat option" where
  "open_start allocated 0 = None"
| "open_start allocated (Suc n) =
     (if allocated n
      then (case open_start allocated n of None \<Rightarrow> Some n | Some a \<Rightarrow> Some a)
      else None)"







subsection \<open>Example objects\<close>

text \<open>
  A record of external functions on which every call succeeds, with the file I/O state a
  counter of the calls that received the handle, and variants on which one call fails.
  They serve to run the functions above on concrete inputs.
\<close>

definition callees_ok :: "nat callees" where
  "callees_ok =
     \<lparr>have_multi_thread_support = True,
      read_write_lock_free = (\<lambda>fs. Ok),
      security_descriptor_index_free = (\<lambda>sdi. (Ok, None)),
      mft_free = (\<lambda>m. Ok),
      mft_initialize = (\<lambda>ioh off sz esz fl. Init_ok \<lparr>number_of_mft_entries = 0, mft_internal = 0\<rparr>),
      mft_entry_initialize =
        Init_ok \<lparr>data_attribute = None, file_name_attribute_index = 0, mft_entry_internal = 0\<rparr>,
      mft_read_mft_entry =
        (\<lambda>m ioh io off i e fl. (Ok, m, e\<lparr>data_attribute := Some 0\<rparr>, io + 1)),
      mft_set_data_runs = (\<lambda>m e. (Ok, m\<lparr>number_of_mft_entries := 24\<rparr>)),
      mft_entry_free = (\<lambda>e. Ok),
      mft_get_number_of_entries =
        (\<lambda>m. case m of
               None \<Rightarrow> (Failed [(ERROR_DOMAIN_ARGUMENTS, ARGUMENT_ERROR_INVALID_VALUE, ''invalid MFT.'')], 0)
             | Some m' \<Rightarrow> (Ok, number_of_mft_entries m')),
      mft_get_mft_entry_by_index =
        (\<lambda>m io i. case m of
               None \<Rightarrow> (Failed [(ERROR_DOMAIN_ARGUMENTS, ARGUMENT_ERROR_INVALID_VALUE, ''invalid MFT.'')], None, 0, io)
             | Some m' \<Rightarrow>
                 (Ok, Some \<lparr>data_attribute = Some (unat i), file_name_attribute_index = 1,
                            mft_entry_internal = unat i\<rparr>, mft_internal m' + 1, io + 1)),
      mft_get_mft_entry_by_index_no_cache =
        (\<lambda>m io i. case m of
               None \<Rightarrow> (Failed [(ERROR_DOMAIN_ARGUMENTS, ARGUMENT_ERROR_INVALID_VALUE, ''invalid MFT.'')], None, 0, io)
             | Some m' \<Rightarrow>
                 (Ok, Some \<lparr>data_attribute = Some (unat i), file_name_attribute_index = 1,
                            mft_entry_internal = unat i\<rparr>, mft_internal m', io + 1)),
      cluster_block_vector_initialize = (\<lambda>ioh a. Init_ok a),
      cache_initialize = (\<lambda>n. Init_ok 0),
      vector_get_number_of_elements = (\<lambda>v. (Ok, 1)),
      vector_get_element_value_by_index =
        (\<lambda>v io c i. (Ok, Some \<lparr>data = Some [0x0F, 0x00, 0x00, 0x80], data_size = 4\<rparr>, c + 1, io + 1)),
      vector_free = (\<lambda>v. Ok),
      cache_free = (\<lambda>c. Ok),
      mft_entry_get_attribute_by_index = (\<lambda>e i. (Ok, Some (nat i))),
      file_name_values_initialize = Init_ok \<lparr>name = None, name_size = 0\<rparr>,
      file_name_values_read_from_mft_attribute =
        (\<lambda>v a. (Ok, v\<lparr>name := Some [0x24, 0x53], name_size := 2\<rparr>)),
      name_compare_with_utf8_string =
        (\<lambda>n nsz s len cf.
           (if n = Some (map (\<lambda>c. of_nat (of_char c)) s) then 1 else 2, [])),
      libuna_compare_equal = 1,
      mft_entry_get_alternate_data_attribute_by_utf8_name = (\<lambda>e s len. (Ok, Some 7)),
      security_descriptor_index_initialize = (\<lambda>ioh io a. (Init_ok 0, io)),
      security_descriptor_index_read_sii_index = (\<lambda>sdi ioh io e. (Ok, sdi + 1, io + 1)),
      file_name_values_free = (\<lambda>v. Ok),
      security_descriptor_index_get_entry_by_identifier =
        (\<lambda>sdi io i. (if i = 256 then 1 else 0, [], sdi, if i = 256 then Some 1 else None, io + 1))\<rparr>"

definition example_io_handle :: libfsntfs_io_handle where
  "example_io_handle = \<lparr>mft_entry_size = 1024, cluster_block_size = 4096\<rparr>"

definition empty_file_system :: libfsntfs_file_system where
  "empty_file_system = \<lparr>mft = None, security_descriptor_index = None\<rparr>"

definition loaded_file_system :: libfsntfs_file_system where
  "loaded_file_system =
     \<lparr>mft = Some \<lparr>number_of_mft_entries = 24, mft_internal = 0\<rparr>,
      security_descriptor_index = None\<rparr>"

definition callees_entry_0_corrupt :: "nat callees" where
  "callees_entry_0_corrupt =
     callees_ok\<lparr>mft_read_mft_entry :=
       (\<lambda>m ioh io off i e fl.
          (Failed [(ERROR_DOMAIN_IO, IO_ERROR_READ_FAILED, ''unable to read MFT entry.'')],
           m, e, io + 1))\<rparr>"

definition callees_entry_0_without_data :: "nat callees" where
  "callees_entry_0_without_data =
     callees_ok\<lparr>mft_read_mft_entry := (\<lambda>m ioh io off i e fl. (Ok, m, e, io + 1))\<rparr>"

definition callees_member_free_fails :: "nat callees" where
  "callees_member_free_fails =
     callees_ok\<lparr>mft_free :=
       (\<lambda>m. Failed [(ERROR_DOMAIN_RUNTIME, RUNTIME_ERROR_FINALIZE_FAILED,
                      ''unable to free MFT entry cache.'')])\<rparr>"

definition callees_secure :: "nat callees" where
  "callees_secure =
     callees_ok\<lparr>file_name_values_read_from_mft_attribute :=
       (\<lambda>v a. (Ok, v\<lparr>name := Some [0x24, 0x53, 0x65, 0x63, 0x75, 0x72, 0x65],
                       name_size := 7\<rparr>))\<rparr>"

definition callees_sii_corrupt :: "nat callees" where
  "callees_sii_corrupt =
     callees_secure\<lparr>security_descriptor_index_read_sii_index :=
       (\<lambda>sdi ioh io e.
          (Failed [(ERROR_DOMAIN_IO, IO_ERROR_READ_FAILED, ''unable to read index.'')],
           sdi, io + 1))\<rparr>"

definition callees_block_without_data :: "nat callees" where
  "callees_block_without_data =
     callees_ok\<lparr>vector_get_element_value_by_index :=
       (\<lambda>v io c i. (Ok, Some \<lparr>data = None, data_size = 0\<rparr>, c + 1, io + 1))\<rparr>"

definition callees_block_too_large :: "nat callees" where
  "callees_block_too_large =
     callees_ok\<lparr>vector_get_element_value_by_index :=
       (\<lambda>v io c i. (Ok, Some \<lparr>data = Some [0x0F, 0x00, 0x00, 0x80],
                                data_size = 0x8000000000000000\<rparr>, c + 1, io + 1))\<rparr>"

definition callees_block_odd_size :: "nat callees" where
  "callees_block_odd_size =
     callees_ok\<lparr>vector_get_element_value_by_index :=
       (\<lambda>v io c i. (Ok, Some \<lparr>data = Some [0x0F, 0x00, 0x00, 0x80, 0x01, 0x00],
                                data_size = 6\<rparr>, c + 1, io + 1))\<rparr>"

text \<open>
  A bitmap of two cluster blocks of four bytes: the last cluster of the first block
  (cluster 31) and the first cluster of the second (cluster 32) are allocated.
\<close>

definition callees_two_blocks :: "nat callees" where
  "callees_two_blocks =
     callees_ok\<lparr>vector_get_number_of_elements := (\<lambda>v. (Ok, 2)),
       vector_get_element_value_by_index :=
         (\<lambda>v io c i.
            (Ok, Some \<lparr>data = Some (if i = 0 then [0x00, 0x00, 0x00, 0x80]
                                      else [0x01, 0x00, 0x00, 0x00]),
                        data_size = 4\<rparr>, c + 1, io + 1))\<rparr>"

section \<open>Properties\<close>

lemmas example_defs = callees_two_blocks_def callees_block_odd_size_def callees_block_too_large_def callees_block_without_data_def callees_sii_corrupt_def callees_secure_def callees_ok_def callees_entry_0_corrupt_def
  callees_entry_0_without_data_def callees_member_free_fails_def
  example_io_handle_def empty_file_system_def loaded_file_system_def

lemmas constant_defs = INT64_MAX_def SSIZE_MAX_def INT_MAX_def
  LIBFSNTFS_FILE_ENTRY_FLAGS_MFT_ONLY_def LIBFSNTFS_MFT_ENTRY_INDEX_BITMAP_def
  LIBFSNTFS_MFT_ENTRY_INDEX_SECURE_def

lemmas callee_splits = init_result.splits prod.splits status.splits option.splits if_splits

subsection \<open>Freeing the facade\<close>

text \<open>
  C10. Freeing is idempotent at the public interface. For a pointer to a \<^verbatim>\<open>NULL\<close>
  facade, free returns 1 and leaves the pointer \<^verbatim>\<open>NULL\<close> and the error
  untouched; after any call with a non-\<^verbatim>\<open>NULL\<close> argument the facade pointer is
  \<^verbatim>\<open>NULL\<close>, and a second call then returns 1 and changes nothing. Only the
  \<^verbatim>\<open>NULL\<close> argument is rejected (-1, invalid value). Freeing a live facade
  always releases it; it returns -1 only where the release of a member reports a failure.
\<close>

theorem file_system_free_idempotent:
  "libfsntfs_file_system_free env (Some None) error = (1, Some None, error)
   \<and> fst (snd (libfsntfs_file_system_free env (Some p) error)) = Some None
   \<and> libfsntfs_file_system_free env
        (fst (snd (libfsntfs_file_system_free env (Some p) error)))
        (snd (snd (libfsntfs_file_system_free env (Some p) error)))
      = (1, fst (snd (libfsntfs_file_system_free env (Some p) error)),
            snd (snd (libfsntfs_file_system_free env (Some p) error)))
   \<and> libfsntfs_file_system_free env None error
      = (-1, None,
         error @ [(ERROR_DOMAIN_ARGUMENTS, ARGUMENT_ERROR_INVALID_VALUE,
                   ''invalid file system.'')])
   \<and> (fst (libfsntfs_file_system_free env (Some (Some fs)) error) = 1
      \<or> fst (libfsntfs_file_system_free env (Some (Some fs)) error) = -1
        \<and> (have_multi_thread_support env \<and> read_write_lock_free env fs \<noteq> Ok
            \<or> (\<exists>sdi. security_descriptor_index fs = Some sdi
                     \<and> fst (security_descriptor_index_free env sdi) \<noteq> Ok)
            \<or> (\<exists>m. mft fs = Some m \<and> mft_free env m \<noteq> Ok)))"
proof -
  have "fst (libfsntfs_file_system_free env (Some (Some fs)) error) = 1
      \<or> fst (libfsntfs_file_system_free env (Some (Some fs)) error) = -1
        \<and> (have_multi_thread_support env \<and> read_write_lock_free env fs \<noteq> Ok
            \<or> (\<exists>sdi. security_descriptor_index fs = Some sdi
                     \<and> fst (security_descriptor_index_free env sdi) \<noteq> Ok)
            \<or> (\<exists>m. mft fs = Some m \<and> mft_free env m \<noteq> Ok))"
    by (auto simp: libfsntfs_file_system_free_def free_member_def Let_def
             split: option.splits status.splits)
  moreover have "fst (snd (libfsntfs_file_system_free env (Some p) error)) = Some None"
    by (cases p) (simp_all add: libfsntfs_file_system_free_def Let_def)
  moreover have "libfsntfs_file_system_free env (Some None) e = (1, Some None, e)" for e
    by (simp add: libfsntfs_file_system_free_def)
  moreover have "libfsntfs_file_system_free env None error
      = (-1, None,
         error @ [(ERROR_DOMAIN_ARGUMENTS, ARGUMENT_ERROR_INVALID_VALUE,
                   ''invalid file system.'')])"
    by (simp add: libfsntfs_file_system_free_def libcerror_error_set_def)
  ultimately show ?thesis
    by simp
qed

theorem file_system_free_idempotent_witness:
  "libfsntfs_file_system_free callees_member_free_fails (Some (Some loaded_file_system)) []
     = (-1, Some None,
        [(ERROR_DOMAIN_RUNTIME, RUNTIME_ERROR_FINALIZE_FAILED, ''unable to free MFT entry cache.''),
         (ERROR_DOMAIN_RUNTIME, RUNTIME_ERROR_FINALIZE_FAILED, ''unable to free MFT.'')])
   \<and> libfsntfs_file_system_free callees_member_free_fails (Some None)
        [(ERROR_DOMAIN_RUNTIME, RUNTIME_ERROR_FINALIZE_FAILED, ''unable to free MFT entry cache.''),
         (ERROR_DOMAIN_RUNTIME, RUNTIME_ERROR_FINALIZE_FAILED, ''unable to free MFT.'')]
     = (1, Some None,
        [(ERROR_DOMAIN_RUNTIME, RUNTIME_ERROR_FINALIZE_FAILED, ''unable to free MFT entry cache.''),
         (ERROR_DOMAIN_RUNTIME, RUNTIME_ERROR_FINALIZE_FAILED, ''unable to free MFT.'')])
   \<and> mft loaded_file_system \<noteq> None
   \<and> mft_free callees_member_free_fails (the (mft loaded_file_system)) \<noteq> Ok"
  using file_system_free_idempotent
          [where env = callees_member_free_fails and p = "Some loaded_file_system"
             and fs = loaded_file_system and error = "[]"]
  by (simp add: libfsntfs_file_system_free_def free_member_def libcerror_error_set_def
        example_defs)

subsection \<open>Reading the MFT\<close>

text \<open>
  C2. read\_mft returns -1 without touching the facade, the file I/O state or any
  external function (the result is the same for every record of external functions) when
  the facade is \<^verbatim>\<open>NULL\<close>, holds an MFT already, the I/O handle is
  \<^verbatim>\<open>NULL\<close>, the offset is negative or the size exceeds
  \<^verbatim>\<open>INT64_MAX\<close>. When the facade holds no MFT, the offset is not negative and
  the size is within the maximum, the checks pass and the call is the bootstrap. A
  negative offset is reported as "value out of bounds", a size above the maximum as
  "value exceeds maximum". A call that succeeded leaves an MFT in the facade, and every
  later call is rejected with "value already set".
\<close>

theorem read_mft_precondition_checks:
  "(file_system = None \<or> (\<exists>fs. file_system = Some fs \<and> mft fs \<noteq> None) \<or> io_handle = None
      \<or> mft_offset <s 0 \<or> mft_size > INT64_MAX
    \<longrightarrow> (\<exists>e. libfsntfs_file_system_read_mft env file_system io_handle io
                    mft_offset mft_size flags error
                = Some (-1, file_system, io, error @ [e])
             \<and> (\<forall>env'. libfsntfs_file_system_read_mft env' file_system io_handle io
                    mft_offset mft_size flags error
                = Some (-1, file_system, io, error @ [e]))))
   \<and> (mft fs = None \<and> mft_offset <s 0
      \<longrightarrow> libfsntfs_file_system_read_mft env (Some fs) (Some ioh) io
             mft_offset mft_size flags error
          = Some (-1, Some fs, io,
                  error @ [(ERROR_DOMAIN_RUNTIME, RUNTIME_ERROR_VALUE_OUT_OF_BOUNDS,
                            ''invalid MFT offset value out of bounds.'')]))
   \<and> (mft fs = None \<and> \<not> mft_offset <s 0 \<and> mft_size > INT64_MAX
      \<longrightarrow> libfsntfs_file_system_read_mft env (Some fs) (Some ioh) io
             mft_offset mft_size flags error
          = Some (-1, Some fs, io,
                  error @ [(ERROR_DOMAIN_RUNTIME, RUNTIME_ERROR_VALUE_EXCEEDS_MAXIMUM,
                            ''invalid MFT size value exceeds maximum.'')]))
   \<and> (mft fs = None \<and> \<not> mft_offset <s 0 \<and> mft_size \<le> INT64_MAX
      \<longrightarrow> libfsntfs_file_system_read_mft env (Some fs) (Some ioh) io
             mft_offset mft_size flags error
          = read_mft_bootstrap env fs ioh io mft_offset mft_size flags error)
   \<and> (libfsntfs_file_system_read_mft env file_system io_handle io
          mft_offset mft_size flags error = Some (1, fs_next, io_next, error_next)
      \<longrightarrow> (\<exists>f. fs_next = Some f \<and> mft f \<noteq> None)
          \<and> libfsntfs_file_system_read_mft env_b fs_next io_handle_b io_b
               mft_offset_b mft_size_b flags_b error_b
            = Some (-1, fs_next, io_b,
                    error_b @ [(ERROR_DOMAIN_RUNTIME, RUNTIME_ERROR_VALUE_ALREADY_SET,
                               ''invalid file system - MFT value already set.'')]))"
proof (intro conjI impI)
  assume "file_system = None \<or> (\<exists>fs. file_system = Some fs \<and> mft fs \<noteq> None) \<or> io_handle = None
      \<or> mft_offset <s 0 \<or> mft_size > INT64_MAX"
  then show "\<exists>e. libfsntfs_file_system_read_mft env file_system io_handle io
                    mft_offset mft_size flags error
                = Some (-1, file_system, io, error @ [e])
             \<and> (\<forall>env'. libfsntfs_file_system_read_mft env' file_system io_handle io
                    mft_offset mft_size flags error
                = Some (-1, file_system, io, error @ [e]))"
    by (auto simp: libfsntfs_file_system_read_mft_def libcerror_error_set_def
             split: option.splits)
next
  assume "mft fs = None \<and> mft_offset <s 0"
  then show "libfsntfs_file_system_read_mft env (Some fs) (Some ioh) io
             mft_offset mft_size flags error
          = Some (-1, Some fs, io,
                  error @ [(ERROR_DOMAIN_RUNTIME, RUNTIME_ERROR_VALUE_OUT_OF_BOUNDS,
                            ''invalid MFT offset value out of bounds.'')])"
    by (simp add: libfsntfs_file_system_read_mft_def libcerror_error_set_def)
next
  assume "mft fs = None \<and> \<not> mft_offset <s 0 \<and> mft_size > INT64_MAX"
  then show "libfsntfs_file_system_read_mft env (Some fs) (Some ioh) io
             mft_offset mft_size flags error
          = Some (-1, Some fs, io,
                  error @ [(ERROR_DOMAIN_RUNTIME, RUNTIME_ERROR_VALUE_EXCEEDS_MAXIMUM,
                            ''invalid MFT size value exceeds maximum.'')])"
    by (simp add: libfsntfs_file_system_read_mft_def libcerror_error_set_def)
next
  assume "mft fs = None \<and> \<not> mft_offset <s 0 \<and> mft_size \<le> INT64_MAX"
  then show "libfsntfs_file_system_read_mft env (Some fs) (Some ioh) io
             mft_offset mft_size flags error
          = read_mft_bootstrap env fs ioh io mft_offset mft_size flags error"
    by (auto simp: libfsntfs_file_system_read_mft_def)
next
  assume a: "libfsntfs_file_system_read_mft env file_system io_handle io
          mft_offset mft_size flags error = Some (1, fs_next, io_next, error_next)"
  then show b: "\<exists>f. fs_next = Some f \<and> mft f \<noteq> None"
    by (auto simp: libfsntfs_file_system_read_mft_def read_mft_bootstrap_def Let_def
             split: callee_splits)
  then show "libfsntfs_file_system_read_mft env_b fs_next io_handle_b io_b
               mft_offset_b mft_size_b flags_b error_b
            = Some (-1, fs_next, io_b,
                    error_b @ [(ERROR_DOMAIN_RUNTIME, RUNTIME_ERROR_VALUE_ALREADY_SET,
                               ''invalid file system - MFT value already set.'')])"
    by (auto simp: libfsntfs_file_system_read_mft_def libcerror_error_set_def)
qed

theorem read_mft_precondition_checks_witness:
  "(- 1 :: 64 word) <s 0
   \<and> libfsntfs_file_system_read_mft callees_ok (Some empty_file_system)
        (Some example_io_handle) 0 (- 1) 0x100000 0 []
      = Some (-1, Some empty_file_system, 0,
              [(ERROR_DOMAIN_RUNTIME, RUNTIME_ERROR_VALUE_OUT_OF_BOUNDS,
                ''invalid MFT offset value out of bounds.'')])
   \<and> mft empty_file_system = None \<and> \<not> (0x400000 :: 64 word) <s 0
   \<and> (0x100000 :: 64 word) \<le> INT64_MAX
   \<and> libfsntfs_file_system_read_mft callees_ok (Some empty_file_system)
        (Some example_io_handle) 0 0x400000 0x100000 0 []
      = read_mft_bootstrap callees_ok empty_file_system example_io_handle 0
          0x400000 0x100000 0 []
   \<and> libfsntfs_file_system_read_mft callees_ok (Some empty_file_system)
        (Some example_io_handle) 0 0x400000 0x100000 0 []
      = Some (1, Some loaded_file_system, 1, [])
   \<and> libfsntfs_file_system_read_mft callees_ok (Some loaded_file_system)
        (Some example_io_handle) 1 0x400000 0x100000 0 []
      = Some (-1, Some loaded_file_system, 1,
              [(ERROR_DOMAIN_RUNTIME, RUNTIME_ERROR_VALUE_ALREADY_SET,
                ''invalid file system - MFT value already set.'')])"
  using read_mft_precondition_checks
          [where env = callees_ok and file_system = "Some empty_file_system"
             and io_handle = "Some example_io_handle" and io = 0 and mft_offset = "- 1"
             and mft_size = "0x100000" and flags = 0 and error = "[]"
             and fs = empty_file_system]
        read_mft_precondition_checks
          [where env = callees_ok and file_system = "Some empty_file_system"
             and io_handle = "Some example_io_handle" and io = 0 and mft_offset = "0x400000"
             and mft_size = "0x100000" and flags = 0 and error = "[]"
             and fs = empty_file_system and ioh = example_io_handle
             and fs_next = "Some loaded_file_system" and io_next = 1 and error_next = "[]"
             and env_b = callees_ok and io_handle_b = "Some example_io_handle"
             and io_b = 1 and mft_offset_b = "0x400000" and mft_size_b = "0x100000"
             and flags_b = 0 and error_b = "[]"]
  by (simp add: libfsntfs_file_system_read_mft_def read_mft_bootstrap_def
        libcerror_error_set_def example_defs constant_defs word_sless_alt)

text \<open>
  C1. The claim: when read\_mft fails while reading MFT entry 0, the facade keeps no
  partial state and a later read\_mft is not rejected. The function does otherwise: the
  MFT object that \<^verbatim>\<open>libfsntfs_mft_initialize\<close> stored in the facade before entry
  0 was read stays there, since \<^verbatim>\<open>on_error\<close> (lines 396-403) frees the local
  MFT entry only, whereas \<^verbatim>\<open>on_error\<close> of
  \<^verbatim>\<open>libfsntfs_file_system_read_security_descriptors\<close> (lines 951-957) releases
  what that function stored in the facade. The theorem runs the function where the read
  of entry 0 fails: the call returns -1, the facade holds an MFT afterwards although it
  held none before, and the next read\_mft, with external functions that all succeed, is
  rejected with "value already set".
\<close>

theorem read_mft_entry_0_failure_retains_mft:
  "libfsntfs_file_system_read_mft callees_entry_0_corrupt (Some empty_file_system)
        (Some example_io_handle) 0 0x400000 0x100000 0 []
      = Some (-1, Some \<lparr>mft = Some \<lparr>number_of_mft_entries = 0, mft_internal = 0\<rparr>,
                          security_descriptor_index = None\<rparr>, 1,
              [(ERROR_DOMAIN_IO, IO_ERROR_READ_FAILED, ''unable to read MFT entry.''),
               (ERROR_DOMAIN_IO, IO_ERROR_READ_FAILED, ''unable to read MFT entry: 0.'')])
   \<and> mft empty_file_system = None
   \<and> libfsntfs_file_system_read_mft callees_ok
        (Some \<lparr>mft = Some \<lparr>number_of_mft_entries = 0, mft_internal = 0\<rparr>,
                security_descriptor_index = None\<rparr>)
        (Some example_io_handle) 1 0x400000 0x100000 0 []
      = Some (-1, Some \<lparr>mft = Some \<lparr>number_of_mft_entries = 0, mft_internal = 0\<rparr>,
                          security_descriptor_index = None\<rparr>, 1,
              [(ERROR_DOMAIN_RUNTIME, RUNTIME_ERROR_VALUE_ALREADY_SET,
                ''invalid file system - MFT value already set.'')])"
  by (simp add: libfsntfs_file_system_read_mft_def read_mft_bootstrap_def
        libcerror_error_set_def example_defs constant_defs word_sless_alt)

text \<open>
  The same for every record of external functions: once
  \<^verbatim>\<open>libfsntfs_mft_initialize\<close> has succeeded, a failing read\_mft leaves an MFT in
  the facade.
\<close>

lemma read_mft_failure_retains_initialized_mft:
  assumes "mft fs = None"
    and "mft_initialize env ioh mft_offset mft_size (ucast (mft_entry_size ioh)) flags
           = Init_ok m"
    and "libfsntfs_file_system_read_mft env (Some fs) (Some ioh) io mft_offset mft_size
           flags error = Some (-1, fs_next, io_next, error_next)"
    and "\<not> mft_offset <s 0" and "mft_size \<le> INT64_MAX"
  shows "\<exists>f. fs_next = Some f \<and> mft f \<noteq> None"
  using assms
  by (auto simp: libfsntfs_file_system_read_mft_def read_mft_bootstrap_def Let_def
           split: callee_splits)




lemma unat_div_entry_size:
  "unat ((mft_size :: 64 word) div ucast (esz :: 32 word)) = unat mft_size div unat esz"
proof -
  have "unat esz < 2 ^ 32"
    using unsigned_less [of esz] by simp
  then have "unat esz < 2 ^ 64"
    by simp
  then have "take_bit 64 (unat esz) = unat esz"
    by (simp add: take_bit_nat_eq_self)
  then show ?thesis
    by (simp add: unat_div unsigned_ucast_eq)
qed

text \<open>
  C4. When read\_mft succeeds with \<^verbatim>\<open>MFT_ONLY\<close> set, the MFT in the facade is
  the one the read of entry 0 left, with the number of entries set to
  \<^verbatim>\<open>mft_size / mft_entry_size\<close> (unsigned integer division, the entry size not
  0), and the result does not depend on \<^verbatim>\<open>libfsntfs_mft_set_data_runs\<close>: the
  data runs of entry 0 are not resolved. When it succeeds with the flag clear, the MFT in
  the facade is the one \<^verbatim>\<open>libfsntfs_mft_set_data_runs\<close> returned for entry 0.
\<close>

theorem read_mft_number_of_entries:
  assumes "libfsntfs_file_system_read_mft env (Some fs) (Some ioh) io mft_offset mft_size
             flags error = Some (1, fs_next, io_next, error_next)"
  shows "(flags AND LIBFSNTFS_FILE_ENTRY_FLAGS_MFT_ONLY \<noteq> 0 \<longrightarrow>
            (\<exists>m1 e1 m2 e2.
               mft_initialize env ioh mft_offset mft_size (ucast (mft_entry_size ioh)) flags
                 = Init_ok m1
               \<and> mft_entry_initialize env = Init_ok e1
               \<and> mft_read_mft_entry env m1 ioh io mft_offset 0 e1 flags = (Ok, m2, e2, io_next)
               \<and> fs_next = Some (fs\<lparr>mft := Some
                          (m2\<lparr>number_of_mft_entries :=
                                mft_size div ucast (mft_entry_size ioh)\<rparr>)\<rparr>))
            \<and> mft_entry_size ioh \<noteq> 0
            \<and> map_option (unat \<circ> number_of_mft_entries) (Option.bind fs_next mft)
                = Some (unat mft_size div unat (mft_entry_size ioh))
            \<and> (\<forall>f. libfsntfs_file_system_read_mft (env\<lparr>mft_set_data_runs := f\<rparr>)
                      (Some fs) (Some ioh) io mft_offset mft_size flags error
                    = Some (1, fs_next, io_next, error_next)))
       \<and> (flags AND LIBFSNTFS_FILE_ENTRY_FLAGS_MFT_ONLY = 0 \<longrightarrow>
            (\<exists>m1 e1 m2 e2 m3.
               mft_initialize env ioh mft_offset mft_size (ucast (mft_entry_size ioh)) flags
                 = Init_ok m1
               \<and> mft_entry_initialize env = Init_ok e1
               \<and> mft_read_mft_entry env m1 ioh io mft_offset 0 e1 flags = (Ok, m2, e2, io_next)
               \<and> mft_set_data_runs env m2 e2 = (Ok, m3)
               \<and> fs_next = Some (fs\<lparr>mft := Some m3\<rparr>)))"
  using assms
  by (auto simp: libfsntfs_file_system_read_mft_def read_mft_bootstrap_def
        libcerror_error_set_def Let_def unat_div_entry_size split: callee_splits)

theorem read_mft_number_of_entries_witness:
  "libfsntfs_file_system_read_mft callees_ok (Some empty_file_system)
        (Some example_io_handle) 0 0x400000 0x100000 1 []
      = Some (1, Some \<lparr>mft = Some \<lparr>number_of_mft_entries = 1024, mft_internal = 0\<rparr>,
                         security_descriptor_index = None\<rparr>, 1, [])
   \<and> (1 :: 8 word) AND LIBFSNTFS_FILE_ENTRY_FLAGS_MFT_ONLY \<noteq> 0
   \<and> (0x100000 :: 64 word) div ucast (mft_entry_size example_io_handle) = 1024
   \<and> libfsntfs_file_system_read_mft callees_ok (Some empty_file_system)
        (Some example_io_handle) 0 0x400000 0x100000 0 []
      = Some (1, Some \<lparr>mft = Some \<lparr>number_of_mft_entries = 24, mft_internal = 0\<rparr>,
                         security_descriptor_index = None\<rparr>, 1, [])
   \<and> (0 :: 8 word) AND LIBFSNTFS_FILE_ENTRY_FLAGS_MFT_ONLY = 0
   \<and> mft_set_data_runs callees_ok \<lparr>number_of_mft_entries = 0, mft_internal = 0\<rparr>
         \<lparr>data_attribute = Some 0, file_name_attribute_index = 0, mft_entry_internal = 0\<rparr>
       = (Ok, \<lparr>number_of_mft_entries = 24, mft_internal = 0\<rparr>)"
  using read_mft_number_of_entries
          [where env = callees_ok and fs = empty_file_system
             and ioh = example_io_handle and io = 0 and mft_offset = "0x400000"
             and mft_size = "0x100000" and flags = 1 and error = "[]"
             and fs_next = "Some \<lparr>mft = Some \<lparr>number_of_mft_entries = 1024,
                                                   mft_internal = 0\<rparr>,
                                       security_descriptor_index = None\<rparr>"
             and io_next = 1 and error_next = "[]"]
        read_mft_number_of_entries
          [where env = callees_ok and fs = empty_file_system
             and ioh = example_io_handle and io = 0 and mft_offset = "0x400000"
             and mft_size = "0x100000" and flags = 0 and error = "[]"
             and fs_next = "Some \<lparr>mft = Some \<lparr>number_of_mft_entries = 24,
                                                   mft_internal = 0\<rparr>,
                                       security_descriptor_index = None\<rparr>"
             and io_next = 1 and error_next = "[]"]
  by (simp add: libfsntfs_file_system_read_mft_def read_mft_bootstrap_def
        example_defs constant_defs word_sless_alt)

text \<open>
  C9. In MFT-only mode, when the argument checks pass and MFT entry 0 is read without an
  unnamed \<^verbatim>\<open>$DATA\<close> attribute, read\_mft returns -1 with a value-missing error,
  whatever \<^verbatim>\<open>libfsntfs_mft_set_data_runs\<close> would do (it is not called in this
  mode).
\<close>

theorem read_mft_mft_only_requires_data_attribute:
  assumes "mft fs = None" and "\<not> mft_offset <s 0" and "mft_size \<le> INT64_MAX"
    and "flags AND LIBFSNTFS_FILE_ENTRY_FLAGS_MFT_ONLY \<noteq> 0"
    and "mft_initialize env ioh mft_offset mft_size (ucast (mft_entry_size ioh)) flags = Init_ok m1"
    and "mft_entry_initialize env = Init_ok e1"
    and "mft_read_mft_entry env m1 ioh io mft_offset 0 e1 flags = (Ok, m2, e2, io2)"
    and "data_attribute e2 = None"
  shows "libfsntfs_file_system_read_mft env (Some fs) (Some ioh) io mft_offset mft_size flags error
         = Some (-1, Some (fs\<lparr>mft := Some m2\<rparr>), io2,
                 error @ [(ERROR_DOMAIN_RUNTIME, RUNTIME_ERROR_VALUE_MISSING,
                           ''invalid MFT entry: 0 - missing data attribute.'')])
       \<and> (\<forall>f. libfsntfs_file_system_read_mft (env\<lparr>mft_set_data_runs := f\<rparr>)
                  (Some fs) (Some ioh) io mft_offset mft_size flags error
               = libfsntfs_file_system_read_mft env
                  (Some fs) (Some ioh) io mft_offset mft_size flags error)"
  using assms
  by (simp add: libfsntfs_file_system_read_mft_def read_mft_bootstrap_def
        libcerror_error_set_def)

theorem read_mft_mft_only_requires_data_attribute_witness:
  "mft empty_file_system = None \<and> \<not> (0x400000 :: 64 word) <s 0
   \<and> (0x100000 :: 64 word) \<le> INT64_MAX
   \<and> (1 :: 8 word) AND LIBFSNTFS_FILE_ENTRY_FLAGS_MFT_ONLY \<noteq> 0
   \<and> data_attribute (fst (snd (snd (mft_read_mft_entry callees_entry_0_without_data
          \<lparr>number_of_mft_entries = 0, mft_internal = 0\<rparr> example_io_handle 0 0x400000 0
          \<lparr>data_attribute = None, file_name_attribute_index = 0, mft_entry_internal = 0\<rparr>
          1)))) = None
   \<and> libfsntfs_file_system_read_mft callees_entry_0_without_data (Some empty_file_system)
        (Some example_io_handle) 0 0x400000 0x100000 1 []
      = Some (-1, Some (empty_file_system
                \<lparr>mft := Some \<lparr>number_of_mft_entries = 0, mft_internal = 0\<rparr>\<rparr>), 1,
              [(ERROR_DOMAIN_RUNTIME, RUNTIME_ERROR_VALUE_MISSING,
                ''invalid MFT entry: 0 - missing data attribute.'')])"
  using read_mft_mft_only_requires_data_attribute
          [where env = callees_entry_0_without_data and fs = empty_file_system
             and ioh = example_io_handle and io = 0 and mft_offset = "0x400000"
             and mft_size = "0x100000" and flags = 1 and error = "[]"
             and ?m1.0 = "\<lparr>number_of_mft_entries = 0, mft_internal = 0\<rparr>"
             and ?e1.0 = "\<lparr>data_attribute = None, file_name_attribute_index = 0,
                            mft_entry_internal = 0\<rparr>"
             and ?m2.0 = "\<lparr>number_of_mft_entries = 0, mft_internal = 0\<rparr>"
             and ?e2.0 = "\<lparr>data_attribute = None, file_name_attribute_index = 0,
                            mft_entry_internal = 0\<rparr>"
             and ?io2.0 = 1]
  by (simp add: example_defs constant_defs word_sless_alt)

subsection \<open>Reading the security descriptors\<close>

lemmas read_security_descriptors_defs =
  libfsntfs_file_system_read_security_descriptors_def
  read_security_descriptors_index_def read_security_descriptors_on_error_def
  set_mft_internal_def libcerror_error_set_def

text \<open>
  C5. When the facade has no security descriptor index, MFT entry 9 and its file name are
  read, the comparison of the name with \<^verbatim>\<open>$Secure\<close> reports neither an error
  nor equality, and the file name values are freed, read\_security\_descriptors returns
  1 and leaves the index absent. On the facade it leaves, every call of
  get\_security\_descriptor\_values\_by\_identifier returns 0 with the facade, the error
  and the file I/O state unchanged, for every identifier and every record of external
  functions.
\<close>

theorem read_security_descriptors_name_mismatch:
  assumes "security_descriptor_index fs = None"
    and "mft_get_mft_entry_by_index env (mft fs) io LIBFSNTFS_MFT_ENTRY_INDEX_SECURE
           = (Ok, Some mft_entry, mi, io_next)"
    and "mft_entry_get_attribute_by_index env mft_entry (file_name_attribute_index mft_entry)
           = (Ok, mft_attribute)"
    and "file_name_values_initialize env = Init_ok values_new"
    and "file_name_values_read_from_mft_attribute env values_new mft_attribute
           = (Ok, file_name_values)"
    and "name_compare_with_utf8_string env (name file_name_values)
           (name_size file_name_values) ''$Secure'' 7 1 = (result, fr)"
    and "result \<noteq> -1" and "result \<noteq> libuna_compare_equal env"
    and "file_name_values_free env file_name_values = Ok"
  shows "libfsntfs_file_system_read_security_descriptors env (Some fs) io_handle io error
           = (1, Some (set_mft_internal mi fs), io_next, error @ fr)
       \<and> security_descriptor_index (set_mft_internal mi fs) = None
       \<and> (\<forall>env_b io_b identifier error_b.
             libfsntfs_file_system_get_security_descriptor_values_by_identifier env_b
               (Some (set_mft_internal mi fs)) io_b identifier error_b
             = (0, Some (set_mft_internal mi fs), None, io_b, error_b))"
  using assms
  by (simp add: libfsntfs_file_system_read_security_descriptors_def set_mft_internal_def
        libfsntfs_file_system_get_security_descriptor_values_by_identifier_def)

theorem read_security_descriptors_name_mismatch_witness:
  "security_descriptor_index loaded_file_system = None
   \<and> name_compare_with_utf8_string callees_ok (Some [0x24, 0x53]) 2 ''$Secure'' 7 1 = (2, [])
   \<and> (2 :: int) \<noteq> - 1 \<and> 2 \<noteq> libuna_compare_equal callees_ok
   \<and> libfsntfs_file_system_read_security_descriptors callees_ok (Some loaded_file_system)
         (Some example_io_handle) 0 []
       = (1, Some \<lparr>mft = Some \<lparr>number_of_mft_entries = 24, mft_internal = 1\<rparr>,
                     security_descriptor_index = None\<rparr>, 1, [])
   \<and> libfsntfs_file_system_get_security_descriptor_values_by_identifier callees_secure
         (Some \<lparr>mft = Some \<lparr>number_of_mft_entries = 24, mft_internal = 1\<rparr>,
                  security_descriptor_index = None\<rparr>) 1 256 []
       = (0, Some \<lparr>mft = Some \<lparr>number_of_mft_entries = 24, mft_internal = 1\<rparr>,
                     security_descriptor_index = None\<rparr>, None, 1, [])"
  using read_security_descriptors_name_mismatch
          [where env = callees_ok and fs = loaded_file_system and io = 0
             and io_handle = "Some example_io_handle" and error = "[]"
             and mft_entry = "\<lparr>data_attribute = Some 9, file_name_attribute_index = 1,
                                mft_entry_internal = 9\<rparr>"
             and mi = 1 and io_next = 1 and mft_attribute = "Some 1"
             and values_new = "\<lparr>name = None, name_size = 0\<rparr>"
             and file_name_values = "\<lparr>name = Some [0x24, 0x53], name_size = 2\<rparr>"
             and result = 2 and fr = "[]"]
  by (simp add: example_defs constant_defs read_security_descriptors_defs
        libfsntfs_file_system_get_security_descriptor_values_by_identifier_def)

text \<open>
  C8, as claimed: whenever read\_security\_descriptors fails, the index is
  \<^verbatim>\<open>NULL\<close> afterwards, and a second call after a successful one fails with
  "value already set". A call on a facade that holds an index fails (lines 780-790) and
  leaves the index in place; and a call that succeeds on a volume whose entry 9 is not
  named \<^verbatim>\<open>$Secure\<close> leaves no index, so the second call succeeds as well.
\<close>

theorem read_security_descriptors_already_set_keeps_index:
  "libfsntfs_file_system_read_security_descriptors callees_secure
       (Some \<lparr>mft = Some \<lparr>number_of_mft_entries = 24, mft_internal = 1\<rparr>,
                security_descriptor_index = Some 1\<rparr>)
       (Some example_io_handle) 2 []
     = (-1, Some \<lparr>mft = Some \<lparr>number_of_mft_entries = 24, mft_internal = 1\<rparr>,
                    security_descriptor_index = Some 1\<rparr>, 2,
        [(ERROR_DOMAIN_RUNTIME, RUNTIME_ERROR_VALUE_ALREADY_SET,
          ''invalid file system - security descriptor index value already set.'')])
   \<and> libfsntfs_file_system_read_security_descriptors callees_ok (Some loaded_file_system)
         (Some example_io_handle) 0 []
       = (1, Some \<lparr>mft = Some \<lparr>number_of_mft_entries = 24, mft_internal = 1\<rparr>,
                     security_descriptor_index = None\<rparr>, 1, [])
   \<and> libfsntfs_file_system_read_security_descriptors callees_ok
         (Some \<lparr>mft = Some \<lparr>number_of_mft_entries = 24, mft_internal = 1\<rparr>,
                  security_descriptor_index = None\<rparr>)
         (Some example_io_handle) 1 []
       = (1, Some \<lparr>mft = Some \<lparr>number_of_mft_entries = 24, mft_internal = 2\<rparr>,
                     security_descriptor_index = None\<rparr>, 2, [])"
  by (simp add: read_security_descriptors_defs example_defs constant_defs)

lemma read_security_descriptors_index_failed:
  "read_security_descriptors_index env fs io_handle io mft_entry error
     = Inl (f, io_next, error_next)
   \<Longrightarrow> mft f = mft fs"
  by (auto simp: read_security_descriptors_index_def split: callee_splits)

lemma read_security_descriptors_index_done:
  "read_security_descriptors_index env fs io_handle io mft_entry error = Inr (f, io_next)
   \<Longrightarrow> mft f = mft fs \<and> security_descriptor_index f \<noteq> None"
  by (auto simp: read_security_descriptors_index_def split: callee_splits)

lemma read_security_descriptors_on_error_result:
  "read_security_descriptors_on_error env fs io error = (rc, fs_next, io_next, error_next)
   \<Longrightarrow> rc = -1 \<and> io_next = io \<and> error_next = error"
  by (auto simp: read_security_descriptors_on_error_def split: option.splits)

lemma read_security_descriptors_on_error_facade:
  assumes "\<forall>sdi. snd (security_descriptor_index_free env sdi) = None"
    and "read_security_descriptors_on_error env fs io error
           = (rc, fs_next, io_next, error_next)"
  shows "rc = -1
       \<and> (\<exists>f. fs_next = Some f \<and> security_descriptor_index f = None \<and> mft f = mft fs)"
  using assms
  by (auto simp: read_security_descriptors_on_error_def split: option.splits)

lemma set_mft_internal_index:
  "security_descriptor_index (set_mft_internal mi fs) = security_descriptor_index fs"
  by (simp add: set_mft_internal_def)

lemma read_security_descriptors_result:
  assumes "security_descriptor_index fs = None"
    and "libfsntfs_file_system_read_security_descriptors env (Some fs) io_handle io error
           = (rc, fs_next, io_next, error_next)"
    and frees: "\<forall>sdi. snd (security_descriptor_index_free env sdi) = None"
  shows "\<exists>f mi. fs_next = Some f \<and> mft f = mft (set_mft_internal mi fs)
           \<and> (rc = -1 \<and> security_descriptor_index f = None \<or> rc = 1)"
  using assms(1,2)
  apply (simp add: libfsntfs_file_system_read_security_descriptors_def Let_def
          split: callee_splits sum.splits)
  apply (auto dest!: read_security_descriptors_index_failed
       read_security_descriptors_index_done
       read_security_descriptors_on_error_facade [OF frees])
  done

lemma read_security_descriptors_index_error:
  "read_security_descriptors_index env fs io_handle io mft_entry error
     = Inl (f, io_next, error_next)
   \<Longrightarrow> \<exists>fr frame. error_next = error @ fr @ [frame]
         \<and> frame \<noteq> (ERROR_DOMAIN_RUNTIME, RUNTIME_ERROR_VALUE_ALREADY_SET,
                 ''invalid file system - security descriptor index value already set.'')"
  by (auto simp: read_security_descriptors_index_def libcerror_error_set_def
        split: callee_splits)

lemma read_security_descriptors_error:
  assumes "security_descriptor_index fs = None"
    and "libfsntfs_file_system_read_security_descriptors env (Some fs) io_handle io error
           = (rc, fs_next, io_next, error_next)"
  shows "rc = 1 \<or> (\<exists>fr frame. error_next = error @ fr @ [frame]
         \<and> frame \<noteq> (ERROR_DOMAIN_RUNTIME, RUNTIME_ERROR_VALUE_ALREADY_SET,
                 ''invalid file system - security descriptor index value already set.''))"
  using assms
  apply (simp add: libfsntfs_file_system_read_security_descriptors_def Let_def
          split: callee_splits sum.splits)
  apply (auto dest!: read_security_descriptors_index_error
       read_security_descriptors_on_error_result
       simp: libcerror_error_set_def)
  done

text \<open>
  C8, amended. For a facade that holds no index when the call starts, and with
  \<^verbatim>\<open>libfsntfs_security_descriptor_index_free\<close> leaving the pointer it is given
  \<^verbatim>\<open>NULL\<close> (as the free functions of the library do): if
  read\_security\_descriptors does not return 1, it returns -1, the index is
  \<^verbatim>\<open>NULL\<close> afterwards, the facade differs from the one before the call in the
  internals of the MFT object at most, and a following call is not rejected with "value
  already set". If a call returns 1 and leaves an index in the facade, every following
  call returns -1 with "value already set" and changes nothing.
\<close>

theorem read_security_descriptors_failure_releases_index:
  "(security_descriptor_index fs = None
      \<and> (\<forall>sdi. snd (security_descriptor_index_free env sdi) = None)
      \<and> libfsntfs_file_system_read_security_descriptors env (Some fs) io_handle io error
          = (rc, fs_next, io_next, error_next)
      \<and> rc \<noteq> 1
    \<longrightarrow> rc = -1
        \<and> (\<exists>mi. fs_next = Some (set_mft_internal mi fs))
        \<and> (\<exists>f. fs_next = Some f \<and> security_descriptor_index f = None)
        \<and> libfsntfs_file_system_read_security_descriptors env_b fs_next io_handle_b io_b
             error_b
           \<noteq> (-1, fs_next, io_b, error_b @ [(ERROR_DOMAIN_RUNTIME, RUNTIME_ERROR_VALUE_ALREADY_SET,
                 ''invalid file system - security descriptor index value already set.'')]))
   \<and> (libfsntfs_file_system_read_security_descriptors env (Some fs) io_handle io error
          = (1, Some f_done, io_next, error_next)
      \<and> security_descriptor_index f_done \<noteq> None
    \<longrightarrow> libfsntfs_file_system_read_security_descriptors env_b (Some f_done) io_handle_b
          io_b error_b
        = (-1, Some f_done, io_b, error_b @ [(ERROR_DOMAIN_RUNTIME, RUNTIME_ERROR_VALUE_ALREADY_SET,
                 ''invalid file system - security descriptor index value already set.'')]))"
proof (intro conjI impI)
  assume a: "security_descriptor_index fs = None
      \<and> (\<forall>sdi. snd (security_descriptor_index_free env sdi) = None)
      \<and> libfsntfs_file_system_read_security_descriptors env (Some fs) io_handle io error
          = (rc, fs_next, io_next, error_next)
      \<and> rc \<noteq> 1"
  then obtain f mi where f: "fs_next = Some f" "mft f = mft (set_mft_internal mi fs)"
      "rc = -1" "security_descriptor_index f = None"
    using read_security_descriptors_result [of fs env io_handle io error rc fs_next
        io_next error_next]
    by auto
  show "rc = -1" by (rule f(3))
  have "f = set_mft_internal mi fs"
    using f(2,4) a by (simp add: set_mft_internal_index)
  then show "\<exists>mi. fs_next = Some (set_mft_internal mi fs)"
    using f(1) by blast
  show "\<exists>f. fs_next = Some f \<and> security_descriptor_index f = None"
    using f(1,4) by blast
  show "libfsntfs_file_system_read_security_descriptors env_b fs_next io_handle_b io_b
             error_b
           \<noteq> (-1, fs_next, io_b, error_b @ [(ERROR_DOMAIN_RUNTIME, RUNTIME_ERROR_VALUE_ALREADY_SET,
                 ''invalid file system - security descriptor index value already set.'')])"
    using read_security_descriptors_error [OF f(4), of env_b io_handle_b io_b error_b
        "-1" fs_next io_b "error_b @ [(ERROR_DOMAIN_RUNTIME, RUNTIME_ERROR_VALUE_ALREADY_SET,
                 ''invalid file system - security descriptor index value already set.'')]"] f(1)
    by auto
next
  assume "libfsntfs_file_system_read_security_descriptors env (Some fs) io_handle io error
          = (1, Some f_done, io_next, error_next)
      \<and> security_descriptor_index f_done \<noteq> None"
  then show "libfsntfs_file_system_read_security_descriptors env_b (Some f_done) io_handle_b
          io_b error_b
        = (-1, Some f_done, io_b, error_b @ [(ERROR_DOMAIN_RUNTIME, RUNTIME_ERROR_VALUE_ALREADY_SET,
                 ''invalid file system - security descriptor index value already set.'')])"
    by (auto simp: libfsntfs_file_system_read_security_descriptors_def
          libcerror_error_set_def)
qed

theorem read_security_descriptors_failure_releases_index_witness:
  "security_descriptor_index loaded_file_system = None
   \<and> (\<forall>sdi. snd (security_descriptor_index_free callees_sii_corrupt sdi) = None)
   \<and> libfsntfs_file_system_read_security_descriptors callees_sii_corrupt
         (Some loaded_file_system) (Some example_io_handle) 0 []
       = (-1, Some \<lparr>mft = Some \<lparr>number_of_mft_entries = 24, mft_internal = 1\<rparr>,
                      security_descriptor_index = None\<rparr>, 2,
          [(ERROR_DOMAIN_IO, IO_ERROR_READ_FAILED, ''unable to read index.''),
           (ERROR_DOMAIN_IO, IO_ERROR_READ_FAILED,
            ''unable to read security descriptor identifier ($SII) index.'')])
   \<and> (- 1 :: int) \<noteq> 1
   \<and> libfsntfs_file_system_read_security_descriptors callees_secure
         (Some \<lparr>mft = Some \<lparr>number_of_mft_entries = 24, mft_internal = 1\<rparr>,
                  security_descriptor_index = None\<rparr>) (Some example_io_handle) 2 []
       = (1, Some \<lparr>mft = Some \<lparr>number_of_mft_entries = 24, mft_internal = 2\<rparr>,
                     security_descriptor_index = Some 1\<rparr>, 4, [])
   \<and> libfsntfs_file_system_read_security_descriptors callees_secure
         (Some \<lparr>mft = Some \<lparr>number_of_mft_entries = 24, mft_internal = 2\<rparr>,
                  security_descriptor_index = Some 1\<rparr>) (Some example_io_handle) 4 []
       = (-1, Some \<lparr>mft = Some \<lparr>number_of_mft_entries = 24, mft_internal = 2\<rparr>,
                      security_descriptor_index = Some 1\<rparr>, 4,
          [(ERROR_DOMAIN_RUNTIME, RUNTIME_ERROR_VALUE_ALREADY_SET,
                 ''invalid file system - security descriptor index value already set.'')])"
proof -
  have e1: "libfsntfs_file_system_read_security_descriptors callees_sii_corrupt
         (Some loaded_file_system) (Some example_io_handle) 0 []
       = (-1, Some \<lparr>mft = Some \<lparr>number_of_mft_entries = 24, mft_internal = 1\<rparr>,
                      security_descriptor_index = None\<rparr>, 2,
          [(ERROR_DOMAIN_IO, IO_ERROR_READ_FAILED, ''unable to read index.''),
           (ERROR_DOMAIN_IO, IO_ERROR_READ_FAILED,
            ''unable to read security descriptor identifier ($SII) index.'')])"
    by (simp add: read_security_descriptors_defs example_defs constant_defs)
  have e2: "libfsntfs_file_system_read_security_descriptors callees_secure
         (Some \<lparr>mft = Some \<lparr>number_of_mft_entries = 24, mft_internal = 1\<rparr>,
                  security_descriptor_index = None\<rparr>) (Some example_io_handle) 2 []
       = (1, Some \<lparr>mft = Some \<lparr>number_of_mft_entries = 24, mft_internal = 2\<rparr>,
                     security_descriptor_index = Some 1\<rparr>, 4, [])"
    by (simp add: read_security_descriptors_defs example_defs constant_defs)
  have e3: "security_descriptor_index loaded_file_system = None"
    by (simp add: example_defs)
  have e4: "\<forall>sdi. snd (security_descriptor_index_free callees_sii_corrupt sdi) = None"
    by (simp add: example_defs)
  show ?thesis
    using read_security_descriptors_failure_releases_index
          [where env = callees_sii_corrupt and fs = loaded_file_system
             and io_handle = "Some example_io_handle" and io = 0 and error = "[]"
             and rc = "- 1"
             and fs_next = "Some \<lparr>mft = Some \<lparr>number_of_mft_entries = 24,
                                                   mft_internal = 1\<rparr>,
                                       security_descriptor_index = None\<rparr>"
             and io_next = 2
             and error_next = "[(ERROR_DOMAIN_IO, IO_ERROR_READ_FAILED,
                                 ''unable to read index.''),
                                (ERROR_DOMAIN_IO, IO_ERROR_READ_FAILED,
                                 ''unable to read security descriptor identifier ($SII) index.'')]"
             and env_b = callees_secure and io_handle_b = "Some example_io_handle"
             and io_b = 2 and error_b = "[]"]
        read_security_descriptors_failure_releases_index
          [where env = callees_secure
             and fs = "\<lparr>mft = Some \<lparr>number_of_mft_entries = 24, mft_internal = 1\<rparr>,
                         security_descriptor_index = None\<rparr>"
             and io_handle = "Some example_io_handle" and io = 2 and error = "[]"
             and f_done = "\<lparr>mft = Some \<lparr>number_of_mft_entries = 24, mft_internal = 2\<rparr>,
                             security_descriptor_index = Some 1\<rparr>"
             and io_next = 4 and error_next = "[]"
             and env_b = callees_secure and io_handle_b = "Some example_io_handle"
             and io_b = 4 and error_b = "[]"]
      e1 e2 e3 e4
    by simp
qed

subsection \<open>Reading the bitmap\<close>

lemmas read_bitmap_defs =
  libfsntfs_file_system_read_bitmap_def libfsntfs_file_system_read_bitmap_verbose_def
  read_bitmap_cluster_blocks.simps
  scan_cluster_block_def scan_cluster_block_data.simps scan_value_32bit.simps scan_bit_def
  byte_stream_copy_to_uint32_little_endian_def initial_scan_state_def
  set_mft_internal_def libcerror_error_set_def

text \<open>
  The scan of a cluster block returns (does not read behind the buffer) when the
  buffer holds at least \<^verbatim>\<open>data_size\<close> bytes and the size is a multiple of 4.
\<close>

lemma scan_cluster_block_data_returns:
  "sz \<le> length d \<Longrightarrow> sz mod 4 = 0 \<Longrightarrow> off mod 4 = 0
   \<Longrightarrow> \<exists>s_end. scan_cluster_block_data cbs d sz off s = Some s_end"
proof (induction cbs d sz off s rule: scan_cluster_block_data.induct)
  case (1 cbs d sz off s)
  show ?case
  proof (cases "off < sz")
    case True
    with "1.prems" have "off + 4 \<le> sz"
      by presburger
    with "1.prems" have inside: "off + 3 < length d"
      by simp
    have "(off + 4) mod 4 = 0"
      using "1.prems" by presburger
    with "1.IH" [OF True inside] "1.prems" True inside show ?thesis
      by (subst scan_cluster_block_data.simps) simp
  next
    case False
    then show ?thesis
      by (subst scan_cluster_block_data.simps) simp
  qed
qed

lemma scan_cluster_block_returns:
  assumes "unat sz \<le> length d" and "sz mod 4 = 0"
  shows "\<exists>s_end. scan_cluster_block cbs d sz s = Some s_end"
proof -
  have "unat (sz mod 4) = unat sz mod 4"
    by (simp add: unat_mod)
  with assms have "unat sz mod 4 = 0"
    by simp
  with assms(1) obtain s_end where
    "scan_cluster_block_data cbs d (unat sz) 0 (s\<lparr>start_offset := - 1\<rparr>) = Some s_end"
    using scan_cluster_block_data_returns [of "unat sz" d 0 cbs "s\<lparr>start_offset := - 1\<rparr>"]
    by auto
  then show ?thesis
    by (simp add: scan_cluster_block_def)
qed

text \<open>
  The loop over the cluster blocks: it runs to the end when every block is retrieved
  with data and a size that passes the check; it stops with the out-of-bounds error at
  the first block whose size fails the check.
\<close>

lemma read_bitmap_cluster_blocks_done:
  assumes good: "\<forall>i io cache. int i < n \<longrightarrow>
            (\<exists>cb d cache_next io_next.
               vector_get_element_value_by_index env vec io cache i
                 = (Ok, Some cb, cache_next, io_next)
               \<and> data cb = Some d \<and> data_size cb mod 4 = 0
               \<and> data_size cb \<le> SSIZE_MAX \<and> unat (data_size cb) \<le> length d)"
  shows "\<exists>io_end cache_end s_end.
           read_bitmap_cluster_blocks env io_handle vec n i io cache s error
             = Some (Blocks_done io_end cache_end s_end)"
proof (induction "nat (n - int i)" arbitrary: i io cache s)
  case 0
  then have "\<not> int i < n"
    by simp
  then show ?case
    by (subst read_bitmap_cluster_blocks.simps) simp
next
  case (Suc k)
  then have less: "int i < n"
    by linarith
  from good [rule_format, OF less, of io cache] obtain cb d cache_next io_next where
    block: "vector_get_element_value_by_index env vec io cache i
              = (Ok, Some cb, cache_next, io_next)"
      "data cb = Some d" "data_size cb mod 4 = 0" "data_size cb \<le> SSIZE_MAX"
      "unat (data_size cb) \<le> length d"
    by (elim exE conjE)
  obtain s_next where
    scan: "scan_cluster_block (cluster_block_size io_handle) d (data_size cb) s = Some s_next"
    using scan_cluster_block_returns [OF block(5) block(3)] by blast
  have "k = nat (n - int (i + 1))"
    using Suc.hyps(2) by simp
  from Suc.hyps(1) [OF this] obtain io_end cache_end s_end where
    "read_bitmap_cluster_blocks env io_handle vec n (i + 1) io_next cache_next s_next error
       = Some (Blocks_done io_end cache_end s_end)"
    by blast
  with less block scan show ?case
    by (subst read_bitmap_cluster_blocks.simps) (simp add: not_less [symmetric])
qed

lemma read_bitmap_cluster_blocks_bad_size:
  assumes "int i < n"
    and "vector_get_element_value_by_index env vec io cache i
           = (Ok, Some cb, cache_next, io_next)"
    and "data cb = Some d"
    and "data_size cb mod 4 \<noteq> 0 \<or> data_size cb > SSIZE_MAX"
  shows "read_bitmap_cluster_blocks env io_handle vec n i io cache s error
           = Some (Blocks_failed io_next
               (error @ [(ERROR_DOMAIN_RUNTIME, RUNTIME_ERROR_VALUE_OUT_OF_BOUNDS,
                          ''cluster block: %d data size value out of bounds.'')]) s)"
  using assms
  by (subst read_bitmap_cluster_blocks.simps) (auto simp: libcerror_error_set_def)

lemma read_bitmap_cluster_blocks_fails_at:
  assumes good: "\<forall>i io cache. i < j \<longrightarrow>
            (\<exists>cb d cache_next io_next.
               vector_get_element_value_by_index env vec io cache i
                 = (Ok, Some cb, cache_next, io_next)
               \<and> data cb = Some d \<and> data_size cb mod 4 = 0
               \<and> data_size cb \<le> SSIZE_MAX \<and> unat (data_size cb) \<le> length d)"
    and bad: "\<forall>io cache. (\<exists>cb d cache_next io_next.
               vector_get_element_value_by_index env vec io cache j
                 = (Ok, Some cb, cache_next, io_next)
               \<and> data cb = Some d
               \<and> (data_size cb mod 4 \<noteq> 0 \<or> data_size cb > SSIZE_MAX))"
    and j: "int j < n"
  shows "i \<le> j \<Longrightarrow> \<exists>io_end s_end.
           read_bitmap_cluster_blocks env io_handle vec n i io cache s error
             = Some (Blocks_failed io_end (error @ [(ERROR_DOMAIN_RUNTIME, RUNTIME_ERROR_VALUE_OUT_OF_BOUNDS,
                          ''cluster block: %d data size value out of bounds.'')]) s_end)"
proof (induction "j - i" arbitrary: i io cache s)
  case 0
  then have "i = j"
    by simp
  from bad [rule_format, of io cache] obtain cb d cache_next io_next where
    "vector_get_element_value_by_index env vec io cache j
       = (Ok, Some cb, cache_next, io_next)"
    "data cb = Some d" "data_size cb mod 4 \<noteq> 0 \<or> data_size cb > SSIZE_MAX"
    by (elim exE conjE)
  then show ?case
    using read_bitmap_cluster_blocks_bad_size [OF j, of env vec io cache cb cache_next
        io_next d io_handle s error] \<open>i = j\<close>
    by blast
next
  case (Suc k)
  then have less: "i < j"
    by linarith
  with j have less_n: "int i < n"
    by linarith
  from good [rule_format, OF less, of io cache] obtain cb d cache_next io_next where
    block: "vector_get_element_value_by_index env vec io cache i
              = (Ok, Some cb, cache_next, io_next)"
      "data cb = Some d" "data_size cb mod 4 = 0" "data_size cb \<le> SSIZE_MAX"
      "unat (data_size cb) \<le> length d"
    by (elim exE conjE)
  obtain s_next where
    scan: "scan_cluster_block (cluster_block_size io_handle) d (data_size cb) s = Some s_next"
    using scan_cluster_block_returns [OF block(5) block(3)] by blast
  have "k = j - (i + 1)" and "i + 1 \<le> j"
    using Suc.hyps(2) less by simp_all
  from Suc.hyps(1) [OF this] obtain io_end s_end where
    "read_bitmap_cluster_blocks env io_handle vec n (i + 1) io_next cache_next s_next error
       = Some (Blocks_failed io_end (error @ [(ERROR_DOMAIN_RUNTIME, RUNTIME_ERROR_VALUE_OUT_OF_BOUNDS,
                          ''cluster block: %d data size value out of bounds.'')]) s_end)"
    by blast
  with less_n block scan show ?case
    by (subst read_bitmap_cluster_blocks.simps) (simp add: not_less [symmetric])
qed

text \<open>
  C6, as claimed: when every scanned block's size is a multiple of 4, the scan runs to
  completion. A block of size 0 without data, and a block whose size is the multiple of 4
  \<open>2^63\<close>, above \<^verbatim>\<open>SSIZE_MAX\<close>, both stop the scan with an error.
\<close>

theorem read_bitmap_multiple_of_4_block_fails:
  "data_size \<lparr>data = None, data_size = 0\<rparr> mod 4 = 0
   \<and> libfsntfs_file_system_read_bitmap callees_block_without_data (Some loaded_file_system)
         (Some example_io_handle) 0 []
       = Some (-1, Some \<lparr>mft = Some \<lparr>number_of_mft_entries = 24, mft_internal = 1\<rparr>,
                         security_descriptor_index = None\<rparr>, 2,
               [(ERROR_DOMAIN_RUNTIME, RUNTIME_ERROR_VALUE_MISSING,
                 ''invalid cluster block: %d - missing data.'')])
   \<and> (0x8000000000000000 :: 64 word) mod 4 = 0
   \<and> libfsntfs_file_system_read_bitmap callees_block_too_large (Some loaded_file_system)
         (Some example_io_handle) 0 []
       = Some (-1, Some \<lparr>mft = Some \<lparr>number_of_mft_entries = 24, mft_internal = 1\<rparr>,
                         security_descriptor_index = None\<rparr>, 2,
               [(ERROR_DOMAIN_RUNTIME, RUNTIME_ERROR_VALUE_OUT_OF_BOUNDS,
                 ''cluster block: %d data size value out of bounds.'')])"
  by (simp add: read_bitmap_defs example_defs constant_defs)

text \<open>
  C6, amended. After MFT entry 6 with its \<^verbatim>\<open>$DATA\<close> attribute, the vector, the
  cache and the number of blocks are obtained: if the blocks before block \<open>j\<close> are
  retrieved with data and a size that is a multiple of 4 and at most
  \<^verbatim>\<open>SSIZE_MAX\<close>, and block \<open>j\<close> is retrieved with data and a size that is not a
  multiple of 4 or exceeds \<^verbatim>\<open>SSIZE_MAX\<close>, read\_bitmap returns -1 with the
  runtime error value-out-of-bounds. If every block is retrieved with data and a size that
  is a multiple of 4 and at most \<^verbatim>\<open>SSIZE_MAX\<close>, the loop runs over all blocks,
  and read\_bitmap returns 1 when the vector and the cache are freed.
\<close>

theorem read_bitmap_block_sizes:
  assumes "mft_get_mft_entry_by_index env (mft fs) io LIBFSNTFS_MFT_ENTRY_INDEX_BITMAP
             = (Ok, Some mft_entry, mi, io_entry)"
    and "data_attribute mft_entry = Some attribute"
    and "cluster_block_vector_initialize env ioh attribute = Init_ok vec"
    and "cache_initialize env 1 = Init_ok cache_new"
    and "vector_get_number_of_elements env vec = (Ok, number_of_cluster_blocks)"
  shows "((\<forall>i io cache. i < j \<longrightarrow>
            (\<exists>cb d cache_next io_next.
               vector_get_element_value_by_index env vec io cache i
                 = (Ok, Some cb, cache_next, io_next)
               \<and> data cb = Some d \<and> data_size cb mod 4 = 0
               \<and> data_size cb \<le> SSIZE_MAX \<and> unat (data_size cb) \<le> length d))
          \<and> (\<forall>io cache. (\<exists>cb d cache_next io_next.
               vector_get_element_value_by_index env vec io cache j
                 = (Ok, Some cb, cache_next, io_next)
               \<and> data cb = Some d
               \<and> (data_size cb mod 4 \<noteq> 0 \<or> data_size cb > SSIZE_MAX)))
          \<and> int j < sint number_of_cluster_blocks
          \<longrightarrow> (\<exists>io_end. libfsntfs_file_system_read_bitmap env (Some fs) (Some ioh) io error
                 = Some (-1, Some (set_mft_internal mi fs), io_end, error @ [(ERROR_DOMAIN_RUNTIME, RUNTIME_ERROR_VALUE_OUT_OF_BOUNDS,
                          ''cluster block: %d data size value out of bounds.'')])))
       \<and> ((\<forall>i io cache. int i < sint number_of_cluster_blocks \<longrightarrow>
            (\<exists>cb d cache_next io_next.
               vector_get_element_value_by_index env vec io cache i
                 = (Ok, Some cb, cache_next, io_next)
               \<and> data cb = Some d \<and> data_size cb mod 4 = 0
               \<and> data_size cb \<le> SSIZE_MAX \<and> unat (data_size cb) \<le> length d))
          \<longrightarrow> (\<exists>io_end cache_end s_end.
                 read_bitmap_cluster_blocks env ioh vec (sint number_of_cluster_blocks) 0
                   io_entry cache_new initial_scan_state error
                 = Some (Blocks_done io_end cache_end s_end)
                 \<and> (vector_free env vec = Ok \<and> cache_free env cache_end = Ok
                    \<longrightarrow> libfsntfs_file_system_read_bitmap env (Some fs) (Some ioh) io error
                        = Some (1, Some (set_mft_internal mi fs), io_end, error))))"
proof (intro conjI impI)
  assume a: "(\<forall>i io cache. i < j \<longrightarrow>
            (\<exists>cb d cache_next io_next.
               vector_get_element_value_by_index env vec io cache i
                 = (Ok, Some cb, cache_next, io_next)
               \<and> data cb = Some d \<and> data_size cb mod 4 = 0
               \<and> data_size cb \<le> SSIZE_MAX \<and> unat (data_size cb) \<le> length d))
          \<and> (\<forall>io cache. (\<exists>cb d cache_next io_next.
               vector_get_element_value_by_index env vec io cache j
                 = (Ok, Some cb, cache_next, io_next)
               \<and> data cb = Some d
               \<and> (data_size cb mod 4 \<noteq> 0 \<or> data_size cb > SSIZE_MAX)))
          \<and> int j < sint number_of_cluster_blocks"
  then obtain io_end s_end where
    "read_bitmap_cluster_blocks env ioh vec (sint number_of_cluster_blocks) 0
       io_entry cache_new initial_scan_state error
     = Some (Blocks_failed io_end (error @ [(ERROR_DOMAIN_RUNTIME, RUNTIME_ERROR_VALUE_OUT_OF_BOUNDS,
                          ''cluster block: %d data size value out of bounds.'')]) s_end)"
    using read_bitmap_cluster_blocks_fails_at [of j env vec "sint number_of_cluster_blocks" 0
        ioh io_entry cache_new initial_scan_state error]
    by blast
  with assms show "\<exists>io_end. libfsntfs_file_system_read_bitmap env (Some fs) (Some ioh) io error
                 = Some (-1, Some (set_mft_internal mi fs), io_end, error @ [(ERROR_DOMAIN_RUNTIME, RUNTIME_ERROR_VALUE_OUT_OF_BOUNDS,
                          ''cluster block: %d data size value out of bounds.'')])"
    by (simp add: libfsntfs_file_system_read_bitmap_def
          libfsntfs_file_system_read_bitmap_verbose_def)
next
  assume "\<forall>i io cache. int i < sint number_of_cluster_blocks \<longrightarrow>
            (\<exists>cb d cache_next io_next.
               vector_get_element_value_by_index env vec io cache i
                 = (Ok, Some cb, cache_next, io_next)
               \<and> data cb = Some d \<and> data_size cb mod 4 = 0
               \<and> data_size cb \<le> SSIZE_MAX \<and> unat (data_size cb) \<le> length d)"
  then obtain io_end cache_end s_end where
    finished: "read_bitmap_cluster_blocks env ioh vec (sint number_of_cluster_blocks) 0
       io_entry cache_new initial_scan_state error
     = Some (Blocks_done io_end cache_end s_end)"
    using read_bitmap_cluster_blocks_done [of "sint number_of_cluster_blocks" env vec ioh 0
        io_entry cache_new initial_scan_state error]
    by blast
  with assms show "\<exists>io_end cache_end s_end.
                 read_bitmap_cluster_blocks env ioh vec (sint number_of_cluster_blocks) 0
                   io_entry cache_new initial_scan_state error
                 = Some (Blocks_done io_end cache_end s_end)
                 \<and> (vector_free env vec = Ok \<and> cache_free env cache_end = Ok
                    \<longrightarrow> libfsntfs_file_system_read_bitmap env (Some fs) (Some ioh) io error
                        = Some (1, Some (set_mft_internal mi fs), io_end, error))"
    by (simp add: libfsntfs_file_system_read_bitmap_def
          libfsntfs_file_system_read_bitmap_verbose_def)
qed

theorem read_bitmap_block_sizes_witness:
  "(6 :: 64 word) mod 4 \<noteq> 0
   \<and> libfsntfs_file_system_read_bitmap callees_block_odd_size (Some loaded_file_system)
         (Some example_io_handle) 0 []
       = Some (-1, Some \<lparr>mft = Some \<lparr>number_of_mft_entries = 24, mft_internal = 1\<rparr>,
                         security_descriptor_index = None\<rparr>, 2,
               [(ERROR_DOMAIN_RUNTIME, RUNTIME_ERROR_VALUE_OUT_OF_BOUNDS,
                 ''cluster block: %d data size value out of bounds.'')])
   \<and> (4 :: 64 word) mod 4 = 0 \<and> (4 :: 64 word) \<le> SSIZE_MAX
   \<and> libfsntfs_file_system_read_bitmap callees_ok (Some loaded_file_system)
         (Some example_io_handle) 0 []
       = Some (1, Some \<lparr>mft = Some \<lparr>number_of_mft_entries = 24, mft_internal = 1\<rparr>,
                         security_descriptor_index = None\<rparr>, 2, [])"
proof -
  have bad: "libfsntfs_file_system_read_bitmap callees_block_odd_size
         (Some loaded_file_system) (Some example_io_handle) 0 []
       = Some (-1, Some \<lparr>mft = Some \<lparr>number_of_mft_entries = 24, mft_internal = 1\<rparr>,
                         security_descriptor_index = None\<rparr>, 2,
               [(ERROR_DOMAIN_RUNTIME, RUNTIME_ERROR_VALUE_OUT_OF_BOUNDS,
                 ''cluster block: %d data size value out of bounds.'')])"
    by (simp add: read_bitmap_defs example_defs constant_defs)
  have entry_odd: "mft_get_mft_entry_by_index callees_block_odd_size (mft loaded_file_system) 0
          LIBFSNTFS_MFT_ENTRY_INDEX_BITMAP = (Ok, Some \<lparr>data_attribute = Some 6, file_name_attribute_index = 1,
                                mft_entry_internal = 6\<rparr>, 1, 1)"
    and entry_ok: "mft_get_mft_entry_by_index callees_ok (mft loaded_file_system) 0
          LIBFSNTFS_MFT_ENTRY_INDEX_BITMAP = (Ok, Some \<lparr>data_attribute = Some 6, file_name_attribute_index = 1,
                                mft_entry_internal = 6\<rparr>, 1, 1)"
    by (simp_all add: example_defs constant_defs)
  have good_blocks: "\<forall>i io cache. int i < sint (1 :: 32 word) \<longrightarrow>
            (\<exists>cb d cache_next io_next.
               vector_get_element_value_by_index callees_ok 6 io cache i
                 = (Ok, Some cb, cache_next, io_next)
               \<and> data cb = Some d \<and> data_size cb mod 4 = 0
               \<and> data_size cb \<le> SSIZE_MAX \<and> unat (data_size cb) \<le> length d)"
    by (simp add: example_defs constant_defs)
  have bad_block: "\<forall>io cache. (\<exists>cb d cache_next io_next.
               vector_get_element_value_by_index callees_block_odd_size 6 io cache 0
                 = (Ok, Some cb, cache_next, io_next)
               \<and> data cb = Some d
               \<and> (data_size cb mod 4 \<noteq> 0 \<or> data_size cb > SSIZE_MAX))"
    by (simp add: example_defs constant_defs)
  have "\<exists>io_end cache_end s_end.
          read_bitmap_cluster_blocks callees_ok example_io_handle 6 (sint (1 :: 32 word)) 0
            1 0 initial_scan_state []
          = Some (Blocks_done io_end cache_end s_end)
          \<and> (vector_free callees_ok 6 = Ok \<and> cache_free callees_ok cache_end = Ok
             \<longrightarrow> libfsntfs_file_system_read_bitmap callees_ok (Some loaded_file_system)
                   (Some example_io_handle) 0 []
                 = Some (1, Some (set_mft_internal 1 loaded_file_system), io_end, []))"
    using read_bitmap_block_sizes
          [where env = callees_ok and fs = loaded_file_system and io = 0
             and mft_entry = "\<lparr>data_attribute = Some 6, file_name_attribute_index = 1,
                                mft_entry_internal = 6\<rparr>" and mi = 1 and io_entry = 1 and attribute = 6
             and ioh = example_io_handle and vec = 6 and cache_new = 0
             and number_of_cluster_blocks = 1 and error = "[]", OF entry_ok]
          good_blocks
    by (simp add: example_defs)
  then have good: "libfsntfs_file_system_read_bitmap callees_ok (Some loaded_file_system)
         (Some example_io_handle) 0 []
       = Some (1, Some \<lparr>mft = Some \<lparr>number_of_mft_entries = 24, mft_internal = 1\<rparr>,
                         security_descriptor_index = None\<rparr>, 2, [])"
    by (simp add: read_bitmap_defs example_defs constant_defs word_sless_alt word_sle_eq)
  have "\<exists>io_end. libfsntfs_file_system_read_bitmap callees_block_odd_size
           (Some loaded_file_system) (Some example_io_handle) 0 []
         = Some (-1, Some (set_mft_internal 1 loaded_file_system), io_end,
                 [] @ [(ERROR_DOMAIN_RUNTIME, RUNTIME_ERROR_VALUE_OUT_OF_BOUNDS,
                        ''cluster block: %d data size value out of bounds.'')])"
    using read_bitmap_block_sizes
          [where env = callees_block_odd_size and fs = loaded_file_system and io = 0
             and mft_entry = "\<lparr>data_attribute = Some 6, file_name_attribute_index = 1,
                                mft_entry_internal = 6\<rparr>" and mi = 1 and io_entry = 1 and attribute = 6
             and ioh = example_io_handle and vec = 6 and cache_new = 0
             and number_of_cluster_blocks = 1 and error = "[]" and j = 0, OF entry_odd]
          bad_block
    by (simp add: example_defs)
  with bad good show ?thesis
    by (simp add: SSIZE_MAX_def)
qed

subsection \<open>The runs of allocated clusters\<close>


lemma open_start_None:
  "open_start allocated n = None \<Longrightarrow> n = 0 \<or> \<not> allocated (n - 1)"
  by (cases n) (auto split: if_splits option.splits)









subsection \<open>The scan computes the runs\<close>












text \<open>
  The macro \<^verbatim>\<open>byte_stream_copy_to_uint32_little_endian\<close> yields the number that
  the four bytes denote, least significant byte first.
\<close>

lemma assembled_word_sum:
  fixes b0 b1 b2 b3 :: "8 word"
  shows "(push_bit 24 (ucast b3) OR push_bit 16 (ucast b2) OR push_bit 8 (ucast b1)
            OR ucast b0 :: 32 word)
         = ucast b0 + push_bit 8 (ucast b1) + push_bit 16 (ucast b2) + push_bit 24 (ucast b3)"
proof -
  have low: "push_bit 8 (ucast b1) OR (ucast b0 :: 32 word)
               = push_bit 8 (ucast b1) + ucast b0"
    by (rule disjunctive_add [symmetric])
      (auto simp: bit_simps dest: bit_imp_le_length)
  have mid: "push_bit 16 (ucast b2) OR (push_bit 8 (ucast b1) OR (ucast b0 :: 32 word))
               = push_bit 16 (ucast b2) + (push_bit 8 (ucast b1) OR ucast b0)"
    by (rule disjunctive_add [symmetric])
      (auto simp: bit_simps dest: bit_imp_le_length)
  have high: "push_bit 24 (ucast b3)
                OR (push_bit 16 (ucast b2) OR (push_bit 8 (ucast b1) OR (ucast b0 :: 32 word)))
               = push_bit 24 (ucast b3)
                   + (push_bit 16 (ucast b2) OR (push_bit 8 (ucast b1) OR ucast b0))"
    by (rule disjunctive_add [symmetric])
      (auto simp: bit_simps dest: bit_imp_le_length)
  have "(push_bit 24 (ucast b3) OR push_bit 16 (ucast b2) OR push_bit 8 (ucast b1)
            OR ucast b0 :: 32 word)
          = push_bit 24 (ucast b3)
              + (push_bit 16 (ucast b2) OR (push_bit 8 (ucast b1) OR ucast b0))"
    by (rule high)
  also have "\<dots> = push_bit 24 (ucast b3)
              + (push_bit 16 (ucast b2) + (push_bit 8 (ucast b1) OR ucast b0))"
    by (simp only: mid)
  also have "\<dots> = push_bit 24 (ucast b3)
              + (push_bit 16 (ucast b2) + (push_bit 8 (ucast b1) + ucast b0))"
    by (simp only: low)
  finally show ?thesis
    by (simp add: add.commute add.left_commute)
qed

lemma byte_stream_copy_to_uint32_little_endian_value:
  "unat (byte_stream_copy_to_uint32_little_endian d (4 * w)) = little_endian_word d w"
proof -
  define total where "total = little_endian_word d w"
  have bounds: "unat (d ! (4 * w)) < 2 ^ 8" "unat (d ! (4 * w + 1)) < 2 ^ 8"
    "unat (d ! (4 * w + 2)) < 2 ^ 8" "unat (d ! (4 * w + 3)) < 2 ^ 8"
    using unsigned_less [of "d ! (4 * w)"] unsigned_less [of "d ! (4 * w + 1)"]
      unsigned_less [of "d ! (4 * w + 2)"] unsigned_less [of "d ! (4 * w + 3)"]
    by simp_all
  have "byte_stream_copy_to_uint32_little_endian d (4 * w) = (of_nat total :: 32 word)"
    unfolding byte_stream_copy_to_uint32_little_endian_def assembled_word_sum
    by (simp add: push_bit_eq_mult total_def little_endian_word_def add.assoc mult.commute)
  moreover have "total < 2 ^ 32"
    using bounds by (simp add: total_def little_endian_word_def)
  ultimately have "unat (byte_stream_copy_to_uint32_little_endian d (4 * w)) = total"
    by (simp only: unat_of_nat) simp
  then show ?thesis
    by (simp only: total_def)
qed

lemma bitmap_bit_word:
  assumes "off mod 4 = 0" and "i < 32"
  shows "bitmap_bit d (8 * off + i)
           = bit (byte_stream_copy_to_uint32_little_endian d off) i"
proof -
  from assms(1) obtain m where m: "off = 4 * m"
    by (auto simp: mod_eq_0_iff_dvd)
  then have "8 * off + i = 32 * m + i"
    by simp
  with assms(2) have "(8 * off + i) div 32 = m" "(8 * off + i) mod 32 = i"
    by simp_all
  then have "bitmap_bit d (8 * off + i) = bit (little_endian_word d m) i"
    by (simp add: bitmap_bit_def)
  also have "\<dots> = bit (unat (byte_stream_copy_to_uint32_little_endian d (4 * m))) i"
    by (simp only: byte_stream_copy_to_uint32_little_endian_value)
  also have "\<dots> = bit (byte_stream_copy_to_uint32_little_endian d (4 * m)) i"
    by (simp add: bit_unsigned_iff)
  finally show ?thesis
    by (simp only: m)
qed




lemma bit_of_assembled_word:
  assumes "k < 32"
  shows "bit (byte_stream_copy_to_uint32_little_endian d (4 * w)) k
           = bit (d ! (4 * w + k div 8)) (k mod 8)"
proof -
  consider "k < 8" | "8 \<le> k" "k < 16" | "16 \<le> k" "k < 24" | "24 \<le> k" "k < 32"
    using assms by linarith
  then show ?thesis
  proof cases
    case 1
    then show ?thesis
      by (simp add: byte_stream_copy_to_uint32_little_endian_def bit_simps)
  next
    case 2
    then have "k div 8 = 1" "k mod 8 = k - 8"
      by (simp_all add: div_nat_eqI mod_if)
    with 2 show ?thesis
      by (auto simp: byte_stream_copy_to_uint32_little_endian_def bit_simps dest: bit_imp_le_length)
  next
    case 3
    then have "k div 8 = 2" "k mod 8 = k - 16"
      by (auto simp: div_nat_eqI intro: mod_nat_eqI)
    with 3 show ?thesis
      by (auto simp: byte_stream_copy_to_uint32_little_endian_def bit_simps dest: bit_imp_le_length)
  next
    case 4
    then have "k div 8 = 3" "k mod 8 = k - 24"
      by (auto simp: div_nat_eqI intro: mod_nat_eqI)
    with 4 show ?thesis
      by (auto simp: byte_stream_copy_to_uint32_little_endian_def bit_simps dest: bit_imp_le_length)
  qed
qed

text \<open>
  In bytes: cluster \<open>j\<close> is bit \<open>j mod 8\<close> of byte \<open>j div 8\<close>. This equation
  serves to evaluate \<open>bitmap_bit\<close>.
\<close>

lemma bitmap_bit_byte [code]: "bitmap_bit d j = bit (d ! (j div 8)) (j mod 8)"
proof -
  have "j mod 32 < 32"
    by simp
  have "bitmap_bit d j = bit (byte_stream_copy_to_uint32_little_endian d (4 * (j div 32))) (j mod 32)"
  proof -
    have "(4 * (j div 32)) mod 4 = 0"
      by simp
    from bitmap_bit_word [OF this \<open>j mod 32 < 32\<close>, of d]
    have "bitmap_bit d (8 * (4 * (j div 32)) + j mod 32)
            = bit (byte_stream_copy_to_uint32_little_endian d (4 * (j div 32))) (j mod 32)" .
    moreover have "8 * (4 * (j div 32)) + j mod 32 = j"
      by presburger
    ultimately show ?thesis
      by (simp only:)
  qed
  also have "\<dots> = bit (d ! (4 * (j div 32) + j mod 32 div 8)) (j mod 32 mod 8)"
    using \<open>j mod 32 < 32\<close> by (rule bit_of_assembled_word)
  also have "4 * (j div 32) + j mod 32 div 8 = j div 8"
  proof -
    have "j div 32 = j div 8 div 4"
      using div_mult2_eq [of j 8 4] by simp
    moreover have "j mod 32 = 8 * (j div 8 mod 4) + j mod 8"
      using mod_mult2_eq [of j 8 4] by simp
    then have "j mod 32 div 8 = j div 8 mod 4"
      by simp
    ultimately show ?thesis
      by simp
  qed
  also have "j mod 32 mod 8 = j mod 8"
    by (rule mod_mod_cancel) simp
  finally show ?thesis .
qed








end
